theory Spec2Isabelle
  imports Main "HOL-Library.Sublist" "HOL-Library.AList"
begin

section \<open>Python values, exceptions and the string primitives the adapter uses\<close>

text \<open>
  The Amcrest camera adapter (\<^verbatim>\<open>custom_components/amcrest/camera.py\<close>) handles values
  that come back from the device client without any static type: text, \<^verbatim>\<open>None\<close>,
  booleans, integers and tuples. They are one datatype here. A Python \<^verbatim>\<open>str\<close> is a
  \<open>string\<close>; each \<open>char\<close> stands for the code point of the same number (below 256).
\<close>

datatype pyval =
    PNone
  | PBool bool
  | PInt int
  | PStr string
  | PTuple "pyval list"

text \<open>
  The exceptions that occur in the module. \<open>AmcrestError\<close> is the device client's error
  class and carries the text that \<^verbatim>\<open>%s\<close> prints for it; \<open>CancelledError\<close> is what the
  event loop raises inside a coroutine that is cancelled at an \<^verbatim>\<open>await\<close>.
\<close>

datatype exn =
    AmcrestError string
  | AttributeError
  | TypeError
  | ValueError
  | IndexError
  | KeyError
  | CancelledError
  | OtherError string

text \<open>\<^verbatim>\<open>str.split(sep)\<close> with an explicit separator: \<^verbatim>\<open>ValueError\<close> for the empty
  separator, otherwise the pieces between the non-overlapping occurrences of \<open>sep\<close>,
  found from the left. \<open>split_from sep acc s\<close> scans \<open>s\<close> with the piece read so far
  in \<open>acc\<close>.\<close>

function split_from :: "string \<Rightarrow> string \<Rightarrow> string \<Rightarrow> string list" where
  "split_from sep acc [] = [acc]"
| "split_from sep acc (c # cs) =
     (if sep \<noteq> [] \<and> prefix sep (c # cs)
      then acc # split_from sep [] (drop (length sep) (c # cs))
      else split_from sep (acc @ [c]) cs)"
  by pat_completeness auto
termination
  by (relation "measure (\<lambda>(sep, acc, s). length s)") auto

definition str_split :: "string \<Rightarrow> string \<Rightarrow> exn + string list" where
  "str_split s sep = (if sep = [] then Inl ValueError else Inr (split_from sep [] s))"

text \<open>\<^verbatim>\<open>str.strip()\<close> without argument removes leading and trailing whitespace. Among the
  code points below 256, \<^verbatim>\<open>str.isspace\<close> holds for 9 to 13, 28 to 32, 133 and 160.\<close>

definition isspace :: "char \<Rightarrow> bool" where
  "isspace c = (let n = of_char c :: nat
                in (9 \<le> n \<and> n \<le> 13) \<or> (28 \<le> n \<and> n \<le> 32) \<or> n = 133 \<or> n = 160)"

definition str_strip :: "string \<Rightarrow> string" where
  "str_strip s = rev (dropWhile isspace (rev (dropWhile isspace s)))"

text \<open>Indexing a list, \<^verbatim>\<open>xs[i]\<close>: a negative index counts from the end, an index out of
  range raises \<^verbatim>\<open>IndexError\<close>.\<close>

definition list_getitem :: "'a list \<Rightarrow> int \<Rightarrow> exn + 'a" where
  "list_getitem xs i =
     (if 0 \<le> i \<and> i < int (length xs) then Inr (xs ! nat i)
      else if i < 0 \<and> - int (length xs) \<le> i then Inr (xs ! nat (int (length xs) + i))
      else Inl IndexError)"

text \<open>\<^verbatim>\<open>xs[v]\<close> for an index that is any value: \<^verbatim>\<open>bool\<close> is a subclass of \<^verbatim>\<open>int\<close>
  (\<^verbatim>\<open>True\<close> is 1), every other type is a \<^verbatim>\<open>TypeError\<close>.\<close>

fun list_getitem_val :: "'a list \<Rightarrow> pyval \<Rightarrow> exn + 'a" where
  "list_getitem_val xs (PInt i) = list_getitem xs i"
| "list_getitem_val xs (PBool b) = list_getitem xs (if b then 1 else 0)"
| "list_getitem_val xs v = Inl TypeError"

text \<open>\<^verbatim>\<open>xs.index(x)\<close>: the position of the first occurrence, \<^verbatim>\<open>ValueError\<close> when there
  is none.\<close>

fun list_index :: "'a list \<Rightarrow> 'a \<Rightarrow> exn + int" where
  "list_index [] x = Inl ValueError"
| "list_index (y # ys) x =
     (if y = x then Inr 0
      else case list_index ys x of Inl e \<Rightarrow> Inl e | Inr i \<Rightarrow> Inr (i + 1))"

text \<open>Unpacking into two targets, \<^verbatim>\<open>a, b = v\<close>: \<open>iter_items\<close> is the sequence an
  iterable yields (a tuple its elements, a string its characters), \<open>None\<close> for a value
  that is not iterable; that one raises \<^verbatim>\<open>TypeError\<close>, and a sequence of any length but
  two raises \<^verbatim>\<open>ValueError\<close>.\<close>

fun iter_items :: "pyval \<Rightarrow> pyval list option" where
  "iter_items (PTuple xs) = Some xs"
| "iter_items (PStr s) = Some (map (\<lambda>c. PStr [c]) s)"
| "iter_items v = None"

definition unpack2 :: "pyval \<Rightarrow> exn + (pyval \<times> pyval)" where
  "unpack2 v =
     (case iter_items v of
        None \<Rightarrow> Inl TypeError
      | Some [a, b] \<Rightarrow> Inr (a, b)
      | Some xs \<Rightarrow> Inl ValueError)"

section \<open>Module constants and the attribute parser\<close>

definition OPTIMISTIC :: bool where
  "OPTIMISTIC = True"

definition CBW_COLOR :: string where "CBW_COLOR = ''color''"
definition CBW_AUTO :: string where "CBW_AUTO = ''auto''"
definition CBW_BW :: string where "CBW_BW = ''bw''"

definition CBW :: "string list" where
  "CBW = [CBW_COLOR, CBW_AUTO, CBW_BW]"

text \<open>
  \<^verbatim>\<open>_extract_attr(resp, sep='=')\<close> (an Isabelle name cannot begin with an underscore):
  \<^verbatim>\<open>resp.split(sep)[-1].strip()\<close>, with \<^verbatim>\<open>AttributeError\<close> turned into \<^verbatim>\<open>None\<close>.
  Only a string has a \<^verbatim>\<open>split\<close> attribute; looking it up on any other value of
  \<open>pyval\<close> raises \<^verbatim>\<open>AttributeError\<close>. Any other exception leaves the function.
\<close>

definition resp_split_last_strip :: "pyval \<Rightarrow> string \<Rightarrow> exn + pyval" where
  "resp_split_last_strip resp sep =
     (case resp of
        PStr s \<Rightarrow>
          (case str_split s sep of
             Inl e \<Rightarrow> Inl e
           | Inr parts \<Rightarrow>
               (case list_getitem parts (- 1) of
                  Inl e \<Rightarrow> Inl e
                | Inr p \<Rightarrow> Inr (PStr (str_strip p))))
      | _ \<Rightarrow> Inl AttributeError)"

definition extract_attr :: "pyval \<Rightarrow> string \<Rightarrow> exn + pyval" where
  "extract_attr resp sep =
     (case resp_split_last_strip resp sep of
        Inl AttributeError \<Rightarrow> Inr PNone
      | r \<Rightarrow> r)"

section \<open>The adapter and its device client\<close>

text \<open>
  Every use of the device client \<^verbatim>\<open>self._camera\<close> is a \<open>call\<close>: reading an attribute,
  assigning one, or invoking a method. The client is outside the module, so it is a
  parameter: a function that, given the calls made so far and the next call, either
  raises (\<open>Inl\<close>) or returns a value (\<open>Inr\<close>). Nothing is assumed about it.
\<close>

datatype call =
    GetAttr string
  | SetAttr string pyval
  | IsMotionDetectorOn
  | Tour bool
  | GoToPreset pyval
  | MjpegUrl pyval
  | RtspUrl pyval

type_synonym device = "call list \<Rightarrow> call \<Rightarrow> exn + pyval"

text \<open>A record sent to \<^verbatim>\<open>_LOGGER\<close>: the level, the format string and its arguments.\<close>

datatype log_arg = ArgStr string | ArgVal pyval | ArgExn exn

datatype log_entry =
    LogError string "log_arg list"
  | LogDebug string "log_arg list"

text \<open>
  The instance attributes of \<^verbatim>\<open>AmcrestCam\<close> that the modelled methods use; \<open>u_x\<close> is
  Python's \<^verbatim>\<open>_x\<close>. \<open>is_streaming\<close> is inherited from the host's \<^verbatim>\<open>Camera\<close> class.
  The last three fields are not attributes of the object but the effects it has on its
  surroundings: the calls it made to the device client, the records it logged, and how
  often it called \<^verbatim>\<open>schedule_update_ha_state\<close>.
\<close>

record AmcrestCam =
  entity_id :: string
  u_name :: string
  u_camera :: device
  u_stream_source :: pyval
  u_resolution :: pyval
  is_streaming :: pyval
  u_is_recording :: pyval
  u_motion_detection_enabled :: pyval
  u_model :: pyval
  u_static_attrs :: "(string \<times> pyval) list"
  u_audio_enabled :: pyval
  u_color_bw :: pyval
  calls :: "call list"
  log :: "log_entry list"
  scheduled :: nat

text \<open>\<^verbatim>\<open>__init__\<close>, given what it copies from the configuration entry \<^verbatim>\<open>amcrest\<close>; the
  entity id is assigned by the host.\<close>

definition init :: "string \<Rightarrow> string \<Rightarrow> device \<Rightarrow> pyval \<Rightarrow> pyval \<Rightarrow> AmcrestCam" where
  "init eid nm dev src res =
     \<lparr>entity_id = eid, u_name = nm, u_camera = dev, u_stream_source = src,
      u_resolution = res, is_streaming = PBool False, u_is_recording = PBool False,
      u_motion_detection_enabled = PNone, u_model = PNone, u_static_attrs = [],
      u_audio_enabled = PNone, u_color_bw = PNone, calls = [], log = [],
      scheduled = 0\<rparr>"

definition dev_call :: "call \<Rightarrow> AmcrestCam \<Rightarrow> (exn + pyval) \<times> AmcrestCam" where
  "dev_call c s = (u_camera s (calls s) c, s\<lparr>calls := calls s @ [c]\<rparr>)"

definition log_error :: "string \<Rightarrow> log_arg list \<Rightarrow> AmcrestCam \<Rightarrow> AmcrestCam" where
  "log_error fmt args s = s\<lparr>log := log s @ [LogError fmt args]\<rparr>"

definition log_debug :: "string \<Rightarrow> log_arg list \<Rightarrow> AmcrestCam \<Rightarrow> AmcrestCam" where
  "log_debug fmt args s = s\<lparr>log := log s @ [LogDebug fmt args]\<rparr>"

definition schedule_update_ha_state :: "AmcrestCam \<Rightarrow> AmcrestCam" where
  "schedule_update_ha_state s = s\<lparr>scheduled := Suc (scheduled s)\<rparr>"

definition should_poll :: "AmcrestCam \<Rightarrow> bool" where
  "should_poll s = (\<not> OPTIMISTIC)"

text \<open>A statement runs on the object and either completes (\<open>None\<close>) or raises; what it
  changed before raising stays changed. A block runs its statements in order and stops
  at the first one that raises.\<close>

type_synonym stmt = "AmcrestCam \<Rightarrow> exn option \<times> AmcrestCam"

fun run_stmts :: "stmt list \<Rightarrow> stmt" where
  "run_stmts [] s = (None, s)"
| "run_stmts (f # fs) s =
     (case f s of
        (None, s1) \<Rightarrow> run_stmts fs s1
      | (Some e, s1) \<Rightarrow> (Some e, s1))"

subsection \<open>Property setters\<close>

definition enable_word :: "bool \<Rightarrow> string" where
  "enable_word enable = (if enable then ''enable'' else ''disable'')"

text \<open>The local dictionary \<^verbatim>\<open>rec_mode\<close> of the recording setter.\<close>

definition rec_mode :: "(string \<times> int) list" where
  "rec_mode = [(''Automatic'', 0), (''Manual'', 1)]"

definition dict_getitem :: "('k \<times> 'v) list \<Rightarrow> 'k \<Rightarrow> exn + 'v" where
  "dict_getitem d k = (case map_of d k of None \<Rightarrow> Inl KeyError | Some v \<Rightarrow> Inr v)"

text \<open>\<^verbatim>\<open>str(enable).lower()\<close> for a boolean.\<close>

definition str_of_bool :: "bool \<Rightarrow> string" where
  "str_of_bool b = (if b then ''True'' else ''False'')"

definition str_lower :: "string \<Rightarrow> string" where
  "str_lower s =
     map (\<lambda>c. let n = of_char c :: nat
               in if (65 \<le> n \<and> n \<le> 90) \<or> (192 \<le> n \<and> n \<le> 222 \<and> n \<noteq> 215)
                  then char_of (n + 32) else c) s"

text \<open>The five setters share one shape: the assignment to the client inside
  \<^verbatim>\<open>try\<close>, an \<^verbatim>\<open>except AmcrestError\<close> that logs, and an \<^verbatim>\<open>else\<close> that caches the
  value and schedules a state update when \<open>OPTIMISTIC\<close>.\<close>

definition is_recording_setter :: "bool \<Rightarrow> stmt" where
  "is_recording_setter enable s =
     (case dict_getitem rec_mode (if enable then ''Manual'' else ''Automatic'') of
        Inl e \<Rightarrow> (Some e, s)
      | Inr m \<Rightarrow>
          (case dev_call (SetAttr ''record_mode'' (PInt m)) s of
             (Inl (AmcrestError error), s1) \<Rightarrow>
               (None, log_error ''Could not %s %s camera recording due to error: %s''
                        [ArgStr (enable_word enable), ArgStr (u_name s1),
                         ArgExn (AmcrestError error)] s1)
           | (Inl e, s1) \<Rightarrow> (Some e, s1)
           | (Inr _, s1) \<Rightarrow>
               (None, if OPTIMISTIC
                      then schedule_update_ha_state (s1\<lparr>u_is_recording := PBool enable\<rparr>)
                      else s1)))"

definition motion_detection_enabled_setter :: "bool \<Rightarrow> stmt" where
  "motion_detection_enabled_setter enable s =
     (case dev_call (SetAttr ''motion_detection''
              (PStr (str_lower (str_of_bool enable)))) s of
        (Inl (AmcrestError error), s1) \<Rightarrow>
          (None, log_error ''Could not %s %s camera motion detection due to error: %s''
                   [ArgStr (enable_word enable), ArgStr (u_name s1),
                    ArgExn (AmcrestError error)] s1)
      | (Inl e, s1) \<Rightarrow> (Some e, s1)
      | (Inr _, s1) \<Rightarrow>
          (None, if OPTIMISTIC
                 then schedule_update_ha_state
                        (s1\<lparr>u_motion_detection_enabled := PBool enable\<rparr>)
                 else s1))"

definition video_enabled_setter :: "bool \<Rightarrow> stmt" where
  "video_enabled_setter enable s =
     (case dev_call (SetAttr ''video_enabled'' (PBool enable)) s of
        (Inl (AmcrestError error), s1) \<Rightarrow>
          (None, log_error ''Could not %s %s camera video stream due to error: %s''
                   [ArgStr (enable_word enable), ArgStr (u_name s1),
                    ArgExn (AmcrestError error)] s1)
      | (Inl e, s1) \<Rightarrow> (Some e, s1)
      | (Inr _, s1) \<Rightarrow>
          (None, if OPTIMISTIC
                 then schedule_update_ha_state (s1\<lparr>is_streaming := PBool enable\<rparr>)
                 else s1))"

text \<open>\<^verbatim>\<open>CBW.index(cbw)\<close> is evaluated before the assignment and inside the \<^verbatim>\<open>try\<close>;
  its \<^verbatim>\<open>ValueError\<close> is not an \<^verbatim>\<open>AmcrestError\<close> and leaves the setter.\<close>

definition color_bw_setter :: "string \<Rightarrow> stmt" where
  "color_bw_setter cbw s =
     (case list_index CBW cbw of
        Inl e \<Rightarrow> (Some e, s)
      | Inr i \<Rightarrow>
          (case dev_call (SetAttr ''day_night_color'' (PInt i)) s of
             (Inl (AmcrestError error), s1) \<Rightarrow>
               (None, log_error ''Could not set %s camera color mode to %s due to error: %s''
                        [ArgStr (u_name s1), ArgStr cbw, ArgExn (AmcrestError error)] s1)
           | (Inl e, s1) \<Rightarrow> (Some e, s1)
           | (Inr _, s1) \<Rightarrow>
               (None, if OPTIMISTIC
                      then schedule_update_ha_state (s1\<lparr>u_color_bw := PStr cbw\<rparr>)
                      else s1)))"

definition audio_enabled_setter :: "bool \<Rightarrow> stmt" where
  "audio_enabled_setter enable s =
     (case dev_call (SetAttr ''audio_enabled'' (PBool enable)) s of
        (Inl (AmcrestError error), s1) \<Rightarrow>
          (None, log_error ''Could not %s %s camera audio stream due to error: %s''
                   [ArgStr (enable_word enable), ArgStr (u_name s1),
                    ArgExn (AmcrestError error)] s1)
      | (Inl e, s1) \<Rightarrow> (Some e, s1)
      | (Inr _, s1) \<Rightarrow>
          (None, if OPTIMISTIC
                 then schedule_update_ha_state (s1\<lparr>u_audio_enabled := PBool enable\<rparr>)
                 else s1))"

subsection \<open>Refreshing the cache\<close>

text \<open>\<^verbatim>\<open>_get_cam_attr(attr)\<close>: \<^verbatim>\<open>getattr(self._camera, attr)\<close>; an \<^verbatim>\<open>AmcrestError\<close> is
  logged and replaced by \<^verbatim>\<open>None\<close>.\<close>

definition get_cam_attr :: "string \<Rightarrow> AmcrestCam \<Rightarrow> (exn + pyval) \<times> AmcrestCam" where
  "get_cam_attr attr s =
     (case dev_call (GetAttr attr) s of
        (Inl (AmcrestError error), s1) \<Rightarrow>
          (Inr PNone, log_error ''Could not get %s camera %s due to error: %s''
                        [ArgStr (u_name s1), ArgStr attr, ArgExn (AmcrestError error)] s1)
      | r \<Rightarrow> r)"

text \<open>\<^verbatim>\<open>_update_cam_attr(attr)\<close>; the dictionary \<^verbatim>\<open>_static_attrs\<close> is an association list
  in insertion order.\<close>

definition update_cam_attr :: "string \<Rightarrow> stmt" where
  "update_cam_attr attr s =
     (case get_cam_attr attr s of
        (Inl e, s1) \<Rightarrow> (Some e, s1)
      | (Inr v, s1) \<Rightarrow>
          (if v \<noteq> PNone
           then (case extract_attr v ''='' of
                   Inl e \<Rightarrow> (Some e, s1)
                 | Inr x \<Rightarrow>
                     (None, s1\<lparr>u_static_attrs := AList.update attr x (u_static_attrs s1)\<rparr>))
           else (None, s1)))"

text \<open>The second half of \<^verbatim>\<open>_update_static_attrs\<close>: the \<^verbatim>\<open>try\<close> covers the read and the
  unpacking, \<^verbatim>\<open>TypeError\<close> is passed over, \<^verbatim>\<open>ValueError\<close> is logged, and the
  \<^verbatim>\<open>else\<close> branch stores the two parsed parts.\<close>

definition update_software_information :: stmt where
  "update_software_information s =
     (case (case get_cam_attr ''software_information'' s of
              (Inl e, s1) \<Rightarrow> (Inl e, s1)
            | (Inr v, s1) \<Rightarrow> (unpack2 v, s1)) of
        (Inl TypeError, s1) \<Rightarrow> (None, s1)
      | (Inl ValueError, s1) \<Rightarrow>
          (None, log_error ''Unexpected %s camera software_information''
                   [ArgStr (u_name s1)] s1)
      | (Inl e, s1) \<Rightarrow> (Some e, s1)
      | (Inr (sw_ver, sw_date), s1) \<Rightarrow>
          (case extract_attr sw_ver ''='' of
             Inl e \<Rightarrow> (Some e, s1)
           | Inr x \<Rightarrow>
               (let s2 = s1\<lparr>u_static_attrs :=
                              AList.update ''software_version'' x (u_static_attrs s1)\<rparr>
                in case extract_attr sw_date '':'' of
                     Inl e \<Rightarrow> (Some e, s2)
                   | Inr y \<Rightarrow>
                       (None, s2\<lparr>u_static_attrs :=
                                   AList.update ''software_build'' y (u_static_attrs s2)\<rparr>))))"

definition update_static_attrs :: stmt where
  "update_static_attrs =
     run_stmts (map update_cam_attr [''hardware_version'', ''machine_name'', ''serial_number'']
                @ [update_software_information])"

text \<open>The statements of the \<^verbatim>\<open>try\<close> block of \<^verbatim>\<open>update\<close>, one definition each, in the
  order of the source.\<close>

definition refresh_model :: stmt where
  "refresh_model s =
     (if u_model s = PNone
      then (case get_cam_attr ''device_type'' s of
              (Inl e, s1) \<Rightarrow> (Some e, s1)
            | (Inr v, s1) \<Rightarrow>
                (case extract_attr v ''='' of
                   Inl e \<Rightarrow> (Some e, s1)
                 | Inr m \<Rightarrow> (None, s1\<lparr>u_model := m\<rparr>)))
      else (None, s))"

definition refresh_static_attrs :: stmt where
  "refresh_static_attrs s =
     (if u_static_attrs s = [] then update_static_attrs s else (None, s))"

definition refresh_is_streaming :: stmt where
  "refresh_is_streaming s =
     (case dev_call (GetAttr ''video_enabled'') s of
        (Inl e, s1) \<Rightarrow> (Some e, s1)
      | (Inr v, s1) \<Rightarrow> (None, s1\<lparr>is_streaming := v\<rparr>))"

definition refresh_is_recording :: stmt where
  "refresh_is_recording s =
     (case dev_call (GetAttr ''record_mode'') s of
        (Inl e, s1) \<Rightarrow> (Some e, s1)
      | (Inr v, s1) \<Rightarrow> (None, s1\<lparr>u_is_recording := PBool (v = PStr ''Manual'')\<rparr>))"

definition refresh_motion_detection_enabled :: stmt where
  "refresh_motion_detection_enabled s =
     (case dev_call IsMotionDetectorOn s of
        (Inl e, s1) \<Rightarrow> (Some e, s1)
      | (Inr v, s1) \<Rightarrow> (None, s1\<lparr>u_motion_detection_enabled := v\<rparr>))"

definition refresh_audio_enabled :: stmt where
  "refresh_audio_enabled s =
     (case dev_call (GetAttr ''audio_enabled'') s of
        (Inl e, s1) \<Rightarrow> (Some e, s1)
      | (Inr v, s1) \<Rightarrow> (None, s1\<lparr>u_audio_enabled := v\<rparr>))"

definition refresh_color_bw :: stmt where
  "refresh_color_bw s =
     (case dev_call (GetAttr ''day_night_color'') s of
        (Inl e, s1) \<Rightarrow> (Some e, s1)
      | (Inr v, s1) \<Rightarrow>
          (case list_getitem_val CBW v of
             Inl e \<Rightarrow> (Some e, s1)
           | Inr cbw \<Rightarrow> (None, s1\<lparr>u_color_bw := PStr cbw\<rparr>)))"

definition update_try :: stmt where
  "update_try =
     run_stmts [refresh_model, refresh_static_attrs, refresh_is_streaming,
                refresh_is_recording, refresh_motion_detection_enabled,
                refresh_audio_enabled, refresh_color_bw]"

text \<open>\<^verbatim>\<open>update\<close>: the debug record, the \<^verbatim>\<open>try\<close> block, and the handler for
  \<^verbatim>\<open>AmcrestError\<close>. Any other exception leaves the method.\<close>

definition update :: stmt where
  "update s =
     (case update_try (log_debug ''Pulling data from %s camera'' [ArgStr (u_name s)] s) of
        (Some (AmcrestError error), s1) \<Rightarrow>
          (None, log_error ''Could not get %s camera attributes due to error: %s''
                   [ArgStr (u_name s1), ArgExn (AmcrestError error)] s1)
      | r \<Rightarrow> r)"

subsection \<open>Commands\<close>

definition turn_off :: stmt where
  "turn_off = run_stmts [is_recording_setter False, video_enabled_setter False]"

definition turn_on :: stmt where
  "turn_on = video_enabled_setter True"

definition enable_motion_detection :: stmt where
  "enable_motion_detection = motion_detection_enabled_setter True"

definition disable_motion_detection :: stmt where
  "disable_motion_detection = motion_detection_enabled_setter False"

definition enable_recording :: stmt where
  "enable_recording = is_recording_setter True"

definition disable_recording :: stmt where
  "disable_recording = is_recording_setter False"

definition set_color_bw :: "string \<Rightarrow> stmt" where
  "set_color_bw cbw = color_bw_setter cbw"

definition enable_audio :: stmt where
  "enable_audio = audio_enabled_setter True"

definition disable_audio :: stmt where
  "disable_audio = audio_enabled_setter False"

definition tour_on :: stmt where
  "tour_on s =
     (case dev_call (Tour True) s of
        (Inl (AmcrestError error), s1) \<Rightarrow>
          (None, log_error ''Could not start %s camera tour due to error: %s''
                   [ArgStr (u_name s1), ArgExn (AmcrestError error)] s1)
      | (Inl e, s1) \<Rightarrow> (Some e, s1)
      | (Inr _, s1) \<Rightarrow> (None, s1))"

definition tour_off :: stmt where
  "tour_off s =
     (case dev_call (Tour False) s of
        (Inl (AmcrestError error), s1) \<Rightarrow>
          (None, log_error ''Could not stop %s camera tour due to error: %s''
                   [ArgStr (u_name s1), ArgExn (AmcrestError error)] s1)
      | (Inl e, s1) \<Rightarrow> (Some e, s1)
      | (Inr _, s1) \<Rightarrow> (None, s1))"

definition goto_preset :: "pyval \<Rightarrow> stmt" where
  "goto_preset preset s =
     (case dev_call (GoToPreset preset) s of
        (Inl (AmcrestError error), s1) \<Rightarrow>
          (None, log_error ''Could not move %s camera to preset %i due to error: %s''
                   [ArgStr (u_name s1), ArgVal preset, ArgExn (AmcrestError error)] s1)
      | (Inl e, s1) \<Rightarrow> (Some e, s1)
      | (Inr _, s1) \<Rightarrow> (None, s1))"

text \<open>What the host can ask of one adapter, and a history of such requests. The object
  outlives an exception that leaves one of its methods, so the next request runs on
  the state the previous one left.\<close>

datatype operation =
    Update
  | TurnOff
  | TurnOn
  | EnableMotionDetection
  | DisableMotionDetection
  | EnableRecording
  | DisableRecording
  | GotoPreset pyval
  | SetColorBw string
  | EnableAudio
  | DisableAudio
  | TourOn
  | TourOff

fun perform :: "operation \<Rightarrow> stmt" where
  "perform Update = update"
| "perform TurnOff = turn_off"
| "perform TurnOn = turn_on"
| "perform EnableMotionDetection = enable_motion_detection"
| "perform DisableMotionDetection = disable_motion_detection"
| "perform EnableRecording = enable_recording"
| "perform DisableRecording = disable_recording"
| "perform (GotoPreset preset) = goto_preset preset"
| "perform (SetColorBw cbw) = set_color_bw cbw"
| "perform EnableAudio = enable_audio"
| "perform DisableAudio = disable_audio"
| "perform TourOn = tour_on"
| "perform TourOff = tour_off"

fun perform_all :: "operation list \<Rightarrow> AmcrestCam \<Rightarrow> AmcrestCam" where
  "perform_all [] s = s"
| "perform_all (opn # ops) s = perform_all ops (snd (perform opn s))"

text \<open>The reads that \<^verbatim>\<open>_update_static_attrs\<close> makes.\<close>

definition static_attr_reads :: "call list" where
  "static_attr_reads =
     map GetAttr [''hardware_version'', ''machine_name'', ''serial_number'',
                  ''software_information'']"

section \<open>The service router\<close>

definition SERVICE_ENABLE_RECORDING :: string where
  "SERVICE_ENABLE_RECORDING = ''amcrest_enable_recording''"
definition SERVICE_DISABLE_RECORDING :: string where
  "SERVICE_DISABLE_RECORDING = ''amcrest_disable_recording''"
definition SERVICE_AUDIO_ON :: string where
  "SERVICE_AUDIO_ON = ''amcrest_audio_on''"
definition SERVICE_AUDIO_OFF :: string where
  "SERVICE_AUDIO_OFF = ''amcrest_audio_off''"
definition SERVICE_TOUR_ON :: string where
  "SERVICE_TOUR_ON = ''amcrest_tour_on''"
definition SERVICE_TOUR_OFF :: string where
  "SERVICE_TOUR_OFF = ''amcrest_tour_off''"

text \<open>
  A service call: its name and the three entries of \<^verbatim>\<open>service.data\<close> the module reads.
  \<open>data_entity_id\<close> is \<open>None\<close> when the key \<^verbatim>\<open>ATTR_ENTITY_ID\<close> is absent. The registry
  \<^verbatim>\<open>hass.data[DATA_AMCREST_CAMS]\<close> is a list of adapters, \<open>None\<close> while the key does not
  exist; an adapter is referred to by its position in the list. The host's helper
  \<^verbatim>\<open>extract_entity_ids\<close> is a parameter.
\<close>

record service_call =
  service :: string
  data_entity_id :: "pyval option"
  data_preset :: pyval
  data_color_bw :: string

definition target_cameras ::
  "(service_call \<Rightarrow> string list) \<Rightarrow> AmcrestCam list option \<Rightarrow> service_call \<Rightarrow> nat list"
where
  "target_cameras extract_entity_ids registry call =
     (case registry of
        None \<Rightarrow> []
      | Some cams \<Rightarrow>
          (let entity_ids = (if data_entity_id call \<noteq> None
                             then Some (extract_entity_ids call) else None)
           in filter (\<lambda>i. case entity_ids of
                             None \<Rightarrow> True
                           | Some ids \<Rightarrow> entity_id (cams ! i) \<in> set ids)
                [0..<length cams]))"

text \<open>The loop the three handlers share: the command on each target in turn, then the
  target is queued for a forced refresh when it is polled. An exception ends the
  handler.\<close>

fun service_loop ::
  "stmt \<Rightarrow> nat list \<Rightarrow> AmcrestCam list \<Rightarrow> nat list
   \<Rightarrow> exn option \<times> AmcrestCam list \<times> nat list"
where
  "service_loop cmd [] cams update_tasks = (None, cams, update_tasks)"
| "service_loop cmd (i # targets) cams update_tasks =
     (case cmd (cams ! i) of
        (Some e, c) \<Rightarrow> (Some e, cams[i := c], update_tasks)
      | (None, c) \<Rightarrow>
          service_loop cmd targets (cams[i := c])
            (if \<not> should_poll c then update_tasks else update_tasks @ [i]))"

text \<open>\<^verbatim>\<open>asyncio.wait(update_tasks)\<close>: each queued adapter is refreshed; an exception of
  a refresh stays in its task.\<close>

fun wait_update_tasks :: "nat list \<Rightarrow> AmcrestCam list \<Rightarrow> AmcrestCam list" where
  "wait_update_tasks [] cams = cams"
| "wait_update_tasks (i # tasks) cams =
     wait_update_tasks tasks (cams[i := snd (update (cams ! i))])"

definition handle_service ::
  "stmt \<Rightarrow> (service_call \<Rightarrow> string list) \<Rightarrow> AmcrestCam list option \<Rightarrow> service_call
   \<Rightarrow> exn option \<times> AmcrestCam list option"
where
  "handle_service cmd extract_entity_ids registry call =
     (case registry of
        None \<Rightarrow> (None, None)
      | Some cams \<Rightarrow>
          (case service_loop cmd (target_cameras extract_entity_ids registry call) cams [] of
             (Some e, cams1, update_tasks) \<Rightarrow> (Some e, Some cams1)
           | (None, cams1, update_tasks) \<Rightarrow>
               (None, Some (if update_tasks \<noteq> [] then wait_update_tasks update_tasks cams1
                            else cams1))))"

definition service_command :: "string \<Rightarrow> stmt" where
  "service_command name =
     (if name = SERVICE_ENABLE_RECORDING then enable_recording
      else if name = SERVICE_DISABLE_RECORDING then disable_recording
      else if name = SERVICE_AUDIO_ON then enable_audio
      else if name = SERVICE_AUDIO_OFF then disable_audio
      else if name = SERVICE_TOUR_ON then tour_on
      else if name = SERVICE_TOUR_OFF then tour_off
      else (\<lambda>s. (None, s)))"

definition async_service_handler ::
  "(service_call \<Rightarrow> string list) \<Rightarrow> AmcrestCam list option \<Rightarrow> service_call
   \<Rightarrow> exn option \<times> AmcrestCam list option"
where
  "async_service_handler extract_entity_ids registry call =
     handle_service (service_command (service call)) extract_entity_ids registry call"

definition async_goto_preset ::
  "(service_call \<Rightarrow> string list) \<Rightarrow> AmcrestCam list option \<Rightarrow> service_call
   \<Rightarrow> exn option \<times> AmcrestCam list option"
where
  "async_goto_preset extract_entity_ids registry call =
     handle_service (goto_preset (data_preset call)) extract_entity_ids registry call"

definition async_set_color_bw ::
  "(service_call \<Rightarrow> string list) \<Rightarrow> AmcrestCam list option \<Rightarrow> service_call
   \<Rightarrow> exn option \<times> AmcrestCam list option"
where
  "async_set_color_bw extract_entity_ids registry call =
     handle_service (set_color_bw (data_color_bw call)) extract_entity_ids registry call"

section \<open>Handing over the live stream\<close>

text \<open>
  \<^verbatim>\<open>handle_async_mjpeg_stream\<close> works through collaborators of the host: the parent
  class, the web session, the proxy helpers and the transcoder object
  \<^verbatim>\<open>CameraMjpeg\<close>. What each of them does when awaited is a parameter; a cancellation
  is the outcome \<open>Inl CancelledError\<close>. \<^verbatim>\<open>STREAM_SOURCE_LIST\<close> is the table of the
  package's \<^verbatim>\<open>__init__\<close>. The events record which collaborator was invoked, in order.
\<close>

datatype stream_event =
    SuperHandle
  | WebsessionGet pyval
  | ProxyWeb
  | OpenCamera pyval
  | ProxyStream
  | StreamClose

record stream_env =
  STREAM_SOURCE_LIST :: "(string \<times> pyval) list"
  super_handle_outcome :: "exn + pyval"
  proxy_web_outcome :: "exn + pyval"
  open_camera_outcome :: "exn option"
  proxy_stream_outcome :: "exn + pyval"
  close_outcome :: "exn option"

text \<open>\<^verbatim>\<open>try: return body finally: fin\<close>: the final block always runs after the body;
  its exception replaces the outcome of the body.\<close>

definition try_finally ::
  "(exn + 'a) \<times> stream_event list \<Rightarrow> exn option \<times> stream_event list
   \<Rightarrow> (exn + 'a) \<times> stream_event list"
where
  "try_finally body fin =
     (case body of
        (r, ev1) \<Rightarrow>
          (case fin of
             (Some e, ev2) \<Rightarrow> (Inl e, ev1 @ ev2)
           | (None, ev2) \<Rightarrow> (r, ev1 @ ev2)))"

definition stream_via_ffmpeg ::
  "stream_env \<Rightarrow> AmcrestCam \<Rightarrow> ((exn + pyval) \<times> stream_event list) \<times> AmcrestCam" where
  "stream_via_ffmpeg env s =
     (case dev_call (RtspUrl (u_resolution s)) s of
        (Inl e, s1) \<Rightarrow> ((Inl e, []), s1)
      | (Inr streaming_url, s1) \<Rightarrow>
          (case open_camera_outcome env of
             Some e \<Rightarrow> ((Inl e, [OpenCamera streaming_url]), s1)
           | None \<Rightarrow>
               (case try_finally (proxy_stream_outcome env, [ProxyStream])
                                 (close_outcome env, [StreamClose]) of
                  (r, ev) \<Rightarrow> ((r, OpenCamera streaming_url # ev), s1))))"

definition handle_async_mjpeg_stream ::
  "stream_env \<Rightarrow> AmcrestCam \<Rightarrow> ((exn + pyval) \<times> stream_event list) \<times> AmcrestCam" where
  "handle_async_mjpeg_stream env s =
     (case dict_getitem (STREAM_SOURCE_LIST env) ''snapshot'' of
        Inl e \<Rightarrow> ((Inl e, []), s)
      | Inr snapshot \<Rightarrow>
          (if u_stream_source s = snapshot
           then ((super_handle_outcome env, [SuperHandle]), s)
           else (case dict_getitem (STREAM_SOURCE_LIST env) ''mjpeg'' of
                   Inl e \<Rightarrow> ((Inl e, []), s)
                 | Inr mjpeg \<Rightarrow>
                     (if u_stream_source s = mjpeg
                      then (case dev_call (MjpegUrl (u_resolution s)) s of
                              (Inl e, s1) \<Rightarrow> ((Inl e, []), s1)
                            | (Inr streaming_url, s1) \<Rightarrow>
                                ((proxy_web_outcome env,
                                  [WebsessionGet streaming_url, ProxyWeb]), s1))
                      else stream_via_ffmpeg env s))))"

section \<open>Observations of a refresh\<close>

text \<open>The five statements of \<^verbatim>\<open>update\<close> that read dynamic state, the device call each
  of them makes, and the cached field each of them assigns, in the order of the source.\<close>

definition dynamic_refresh :: "stmt list" where
  "dynamic_refresh =
     [refresh_is_streaming, refresh_is_recording, refresh_motion_detection_enabled,
      refresh_audio_enabled, refresh_color_bw]"

definition dynamic_reads :: "call list" where
  "dynamic_reads =
     [GetAttr ''video_enabled'', GetAttr ''record_mode'', IsMotionDetectorOn,
      GetAttr ''audio_enabled'', GetAttr ''day_night_color'']"

definition cached_fields :: "(AmcrestCam \<Rightarrow> pyval) list" where
  "cached_fields =
     [is_streaming, u_is_recording, u_motion_detection_enabled, u_audio_enabled, u_color_bw]"

text \<open>The name and the cached fields from position \<open>k\<close> on.\<close>

definition later_fields :: "nat \<Rightarrow> AmcrestCam \<Rightarrow> string \<times> pyval list" where
  "later_fields k s = (u_name s, map (\<lambda>f. f s) (drop k cached_fields))"

text \<open>The dynamic fields and the name, which the static stage of a refresh never
  touches.\<close>

definition dyn_obs :: "AmcrestCam \<Rightarrow> pyval \<times> pyval \<times> pyval \<times> pyval \<times> pyval \<times> string" where
  "dyn_obs s = (is_streaming s, u_is_recording s, u_motion_detection_enabled s,
                u_audio_enabled s, u_color_bw s, u_name s)"

text \<open>The static attributes and the static reads made so far.\<close>

definition static_obs :: "AmcrestCam \<Rightarrow> (string \<times> pyval) list \<times> call list" where
  "static_obs s = (u_static_attrs s, filter (\<lambda>c. c \<in> set static_attr_reads) (calls s))"

section \<open>Example devices\<close>

text \<open>Device clients, adapters and calls to run the model on. The first client
  remembers what was assigned to each attribute and returns it when the attribute is
  read; the second fails every call with the client's error.\<close>

fun written :: "string \<Rightarrow> call list \<Rightarrow> pyval \<Rightarrow> pyval" where
  "written a [] d = d"
| "written a (SetAttr b v # cs) d = written a cs (if a = b then v else d)"
| "written a (c # cs) d = written a cs d"

definition echo_device :: device where
  "echo_device h c = (case c of GetAttr a \<Rightarrow> Inr (written a h PNone) | _ \<Rightarrow> Inr PNone)"

definition failing_device :: device where
  "failing_device h c = Inl (AmcrestError ''timed out'')"

definition front_door :: "device \<Rightarrow> AmcrestCam" where
  "front_door dev = init ''camera.front_door'' ''Front door'' dev (PInt 2) (PInt 0)"

text \<open>A client whose first round of reads succeeds; from the second round on it reports
  the video stream as enabled and fails the read of \<^verbatim>\<open>record_mode\<close>.\<close>

definition flaky_device :: device where
  "flaky_device h c =
     (if c = GetAttr ''video_enabled'' then Inr (PBool (GetAttr ''video_enabled'' \<in> set h))
      else if c = GetAttr ''record_mode''
        then (if GetAttr ''record_mode'' \<in> set h then Inl (AmcrestError ''timed out'')
              else Inr (PStr ''Manual''))
      else if c = IsMotionDetectorOn then Inr (PBool True)
      else if c = GetAttr ''audio_enabled'' then Inr (PBool True)
      else if c = GetAttr ''day_night_color'' then Inr (PInt 1)
      else if c = GetAttr ''software_information''
        then Inr (PTuple [PStr ''version=2.420.AC00.18.R'', PStr ''build:2017-06-29''])
      else Inr (PStr ''value=IP2M-841''))"

definition refreshed_once :: AmcrestCam where
  "refreshed_once = snd (update (front_door flaky_device))"

text \<open>A client that answers every read of a text attribute with a label and a value, and
  returns \<open>v\<close> for \<^verbatim>\<open>software_information\<close>.\<close>

definition device_with_software :: "pyval \<Rightarrow> device" where
  "device_with_software v h c =
     (if c = GetAttr ''software_information'' then Inr v
      else if c = GetAttr ''video_enabled'' \<or> c = GetAttr ''audio_enabled''
              \<or> c = IsMotionDetectorOn then Inr (PBool True)
      else if c = GetAttr ''record_mode'' then Inr (PStr ''Manual'')
      else if c = GetAttr ''day_night_color'' then Inr (PInt 0)
      else Inr (PStr ''value=IP2M-841''))"

text \<open>A client that cannot deliver the serial number.\<close>

definition partial_device :: device where
  "partial_device h c =
     (if c = GetAttr ''serial_number'' then Inl (AmcrestError ''timed out'')
      else device_with_software
             (PTuple [PStr ''version=2.420.AC00.18.R'', PStr ''build:2017-06-29'']) h c)"

definition partly_described :: AmcrestCam where
  "partly_described = snd (update (front_door partial_device))"

text \<open>Collaborators of the stream handoff whose relay ends as given, a registry of two
  adapters, and a service call.\<close>

definition stream_env_example :: "exn + pyval \<Rightarrow> stream_env" where
  "stream_env_example relay =
     \<lparr>STREAM_SOURCE_LIST = [(''mjpeg'', PInt 0), (''snapshot'', PInt 1), (''rtsp'', PInt 2)],
      super_handle_outcome = Inr PNone, proxy_web_outcome = Inr PNone,
      open_camera_outcome = None, proxy_stream_outcome = relay, close_outcome = None\<rparr>"

definition two_cameras :: "AmcrestCam list" where
  "two_cameras =
     [front_door echo_device,
      init ''camera.garage'' ''Garage'' failing_device (PInt 0) (PInt 0)]"

definition call_example :: "string \<Rightarrow> pyval option \<Rightarrow> service_call" where
  "call_example name ids =
     \<lparr>service = name, data_entity_id = ids, data_preset = PInt 1, data_color_bw = ''auto''\<rparr>"

text \<open>A stand-in for the host's helper on a call that lists plain entity ids: the
  strings of the list.\<close>

definition plain_entity_ids :: "service_call \<Rightarrow> string list" where
  "plain_entity_ids call =
     (case data_entity_id call of
        Some (PTuple vs) \<Rightarrow> concat (map (\<lambda>v. case v of PStr x \<Rightarrow> [x] | _ \<Rightarrow> []) vs)
      | Some (PStr x) \<Rightarrow> [x]
      | _ \<Rightarrow> [])"

section \<open>Properties of the attribute parser\<close>

lemma split_from_absent: "c \<notin> set s \<Longrightarrow> split_from [c] acc s = [acc @ s]"
  by (induction s arbitrary: acc) auto

lemma split_from_nonempty: "split_from sep acc s \<noteq> []"
  by (induction sep acc s rule: split_from.induct) auto

lemma split_from_last:
  "c \<notin> set b \<Longrightarrow> last (split_from [c] acc (a @ c # b)) = b"
  by (induction a arbitrary: acc) (auto simp: split_from_absent split_from_nonempty)

lemma list_getitem_last: "xs \<noteq> [] \<Longrightarrow> list_getitem xs (- 1) = Inr (last xs)"
  by (cases xs rule: rev_cases) (auto simp: list_getitem_def nth_append)

lemma extract_attr_str:
  "sep \<noteq> [] \<Longrightarrow>
   extract_attr (PStr s) sep = Inr (PStr (str_strip (last (split_from sep [] s))))"
  by (simp add: extract_attr_def resp_split_last_strip_def str_split_def
      list_getitem_last split_from_nonempty)

lemma extract_attr_non_str:
  "(\<forall>s. resp \<noteq> PStr s) \<Longrightarrow> extract_attr resp sep = Inr PNone"
  by (cases resp) (auto simp: extract_attr_def resp_split_last_strip_def)

text \<open>
  Claim C6, as amended. \<^verbatim>\<open>_extract_attr\<close> returns \<^verbatim>\<open>"1.2.3"\<close> for
  \<^verbatim>\<open>"software version=1.2.3"\<close> with separator \<^verbatim>\<open>=\<close> and \<^verbatim>\<open>"2021-01-01"\<close> for
  \<^verbatim>\<open>"build:2021-01-01"\<close> with separator \<^verbatim>\<open>:\<close>. For every input that is not a string
  it returns \<^verbatim>\<open>None\<close>. For a string and a one-character separator it does not raise and
  does not return \<^verbatim>\<open>None\<close>: the result is the trimmed text after the last separator,
  and the whole trimmed string when the separator does not occur in it.
\<close>

theorem extract_attr_parse:
  "extract_attr (PStr ''software version=1.2.3'') ''='' = Inr (PStr ''1.2.3'')
   \<and> extract_attr (PStr ''build:2021-01-01'') '':'' = Inr (PStr ''2021-01-01'')
   \<and> ((\<forall>s. resp \<noteq> PStr s) \<longrightarrow> extract_attr resp sep = Inr PNone)
   \<and> (c \<notin> set b \<longrightarrow> extract_attr (PStr (a @ c # b)) [c] = Inr (PStr (str_strip b)))
   \<and> (c \<notin> set s \<longrightarrow> extract_attr (PStr s) [c] = Inr (PStr (str_strip s)))"
proof (intro conjI impI)
  show "extract_attr (PStr ''software version=1.2.3'') ''='' = Inr (PStr ''1.2.3'')"
    by code_simp
  show "extract_attr (PStr ''build:2021-01-01'') '':'' = Inr (PStr ''2021-01-01'')"
    by code_simp
next
  assume "\<forall>s. resp \<noteq> PStr s"
  then show "extract_attr resp sep = Inr PNone" by (rule extract_attr_non_str)
next
  assume "c \<notin> set b"
  then show "extract_attr (PStr (a @ c # b)) [c] = Inr (PStr (str_strip b))"
    by (simp add: extract_attr_str split_from_last)
next
  assume "c \<notin> set s"
  then show "extract_attr (PStr s) [c] = Inr (PStr (str_strip s))"
    by (simp add: extract_attr_str split_from_absent)
qed

theorem extract_attr_parse_witness:
  "(\<forall>s. PTuple [PInt 1, PInt 2] \<noteq> PStr s)
   \<and> extract_attr (PTuple [PInt 1, PInt 2]) ''='' = Inr PNone
   \<and> CHR ''='' \<notin> set '' 1.0 ''
   \<and> extract_attr (PStr ''version= 1.0 '') ''='' = Inr (PStr ''1.0'')
   \<and> CHR ''='' \<notin> set ''garbage''
   \<and> extract_attr (PStr ''garbage'') ''='' = Inr (PStr ''garbage'')"
  using extract_attr_parse [of "PTuple [PInt 1, PInt 2]" "''=''" "CHR ''=''" "'' 1.0 ''"
      "''version''" "''garbage''"]
  by (simp add: str_strip_def isspace_def)

text \<open>The claim as it was stated fails on a malformed string: text without the
  separator comes back whole, not as \<^verbatim>\<open>None\<close>.\<close>

theorem extract_attr_malformed_counterexample:
  "extract_attr (PStr ''garbage'') ''='' = Inr (PStr ''garbage'')
   \<and> extract_attr (PStr ''garbage'') ''='' \<noteq> Inr PNone"
  by code_simp

section \<open>Mutation commands\<close>

lemma is_recording_setter_fail:
  "u_camera s (calls s) (SetAttr ''record_mode'' (PInt (if enable then 1 else 0)))
     = Inl (AmcrestError e) \<Longrightarrow>
   is_recording_setter enable s =
     (None, s\<lparr>calls := calls s @ [SetAttr ''record_mode'' (PInt (if enable then 1 else 0))],
              log := log s @ [LogError ''Could not %s %s camera recording due to error: %s''
                    [ArgStr (if enable then ''enable'' else ''disable''), ArgStr (u_name s),
                     ArgExn (AmcrestError e)]]\<rparr>)"
  by (cases enable) (simp_all add: is_recording_setter_def dict_getitem_def rec_mode_def dev_call_def
      log_error_def enable_word_def)

lemma is_recording_setter_ok:
  "u_camera s (calls s) (SetAttr ''record_mode'' (PInt (if enable then 1 else 0))) = Inr v \<Longrightarrow>
   is_recording_setter enable s =
     (None, s\<lparr>calls := calls s @ [SetAttr ''record_mode'' (PInt (if enable then 1 else 0))],
              u_is_recording := PBool enable, scheduled := Suc (scheduled s)\<rparr>)"
  by (cases enable) (simp_all add: is_recording_setter_def dict_getitem_def rec_mode_def dev_call_def
      OPTIMISTIC_def schedule_update_ha_state_def)

lemma str_lower_True: "str_lower ''True'' = ''true''"
  by code_simp

lemma str_lower_False: "str_lower ''False'' = ''false''"
  by code_simp

lemma str_lower_bool: "str_lower (str_of_bool enable) = (if enable then ''true'' else ''false'')"
  by (simp add: str_of_bool_def str_lower_True str_lower_False)

lemma motion_detection_enabled_setter_fail:
  "u_camera s (calls s) (SetAttr ''motion_detection'' (PStr (if enable then ''true'' else ''false'')))
     = Inl (AmcrestError e) \<Longrightarrow>
   motion_detection_enabled_setter enable s =
     (None, s\<lparr>calls := calls s @ [SetAttr ''motion_detection'' (PStr (if enable then ''true'' else ''false''))],
              log := log s @ [LogError ''Could not %s %s camera motion detection due to error: %s''
                    [ArgStr (if enable then ''enable'' else ''disable''), ArgStr (u_name s),
                     ArgExn (AmcrestError e)]]\<rparr>)"
  by (cases enable) (simp_all add: motion_detection_enabled_setter_def str_lower_bool dev_call_def
      log_error_def enable_word_def)

lemma motion_detection_enabled_setter_ok:
  "u_camera s (calls s) (SetAttr ''motion_detection'' (PStr (if enable then ''true'' else ''false'')))
     = Inr v \<Longrightarrow>
   motion_detection_enabled_setter enable s =
     (None, s\<lparr>calls := calls s @ [SetAttr ''motion_detection'' (PStr (if enable then ''true'' else ''false''))],
              u_motion_detection_enabled := PBool enable, scheduled := Suc (scheduled s)\<rparr>)"
  by (cases enable) (simp_all add: motion_detection_enabled_setter_def str_lower_bool dev_call_def
      OPTIMISTIC_def schedule_update_ha_state_def)

lemma video_enabled_setter_fail:
  "u_camera s (calls s) (SetAttr ''video_enabled'' (PBool enable)) = Inl (AmcrestError e) \<Longrightarrow>
   video_enabled_setter enable s =
     (None, s\<lparr>calls := calls s @ [SetAttr ''video_enabled'' (PBool enable)],
              log := log s @ [LogError ''Could not %s %s camera video stream due to error: %s''
                    [ArgStr (if enable then ''enable'' else ''disable''), ArgStr (u_name s),
                     ArgExn (AmcrestError e)]]\<rparr>)"
  by (simp add: video_enabled_setter_def dev_call_def log_error_def enable_word_def)

lemma video_enabled_setter_ok:
  "u_camera s (calls s) (SetAttr ''video_enabled'' (PBool enable)) = Inr v \<Longrightarrow>
   video_enabled_setter enable s =
     (None, s\<lparr>calls := calls s @ [SetAttr ''video_enabled'' (PBool enable)],
              is_streaming := PBool enable, scheduled := Suc (scheduled s)\<rparr>)"
  by (simp add: video_enabled_setter_def dev_call_def OPTIMISTIC_def schedule_update_ha_state_def)

lemma audio_enabled_setter_fail:
  "u_camera s (calls s) (SetAttr ''audio_enabled'' (PBool enable)) = Inl (AmcrestError e) \<Longrightarrow>
   audio_enabled_setter enable s =
     (None, s\<lparr>calls := calls s @ [SetAttr ''audio_enabled'' (PBool enable)],
              log := log s @ [LogError ''Could not %s %s camera audio stream due to error: %s''
                    [ArgStr (if enable then ''enable'' else ''disable''), ArgStr (u_name s),
                     ArgExn (AmcrestError e)]]\<rparr>)"
  by (simp add: audio_enabled_setter_def dev_call_def log_error_def enable_word_def)

lemma audio_enabled_setter_ok:
  "u_camera s (calls s) (SetAttr ''audio_enabled'' (PBool enable)) = Inr v \<Longrightarrow>
   audio_enabled_setter enable s =
     (None, s\<lparr>calls := calls s @ [SetAttr ''audio_enabled'' (PBool enable)],
              u_audio_enabled := PBool enable, scheduled := Suc (scheduled s)\<rparr>)"
  by (simp add: audio_enabled_setter_def dev_call_def OPTIMISTIC_def schedule_update_ha_state_def)

lemma CBW_index:
  "list_index CBW ''color'' = Inr 0" "list_index CBW ''auto'' = Inr 1"
  "list_index CBW ''bw'' = Inr 2"
  by (simp_all add: CBW_def CBW_COLOR_def CBW_AUTO_def CBW_BW_def)

lemma CBW_index_cases:
  "cbw \<in> set CBW \<Longrightarrow>
   list_index CBW cbw = Inr (if cbw = ''color'' then 0 else if cbw = ''auto'' then 1 else 2)"
  by (auto simp: CBW_def CBW_COLOR_def CBW_AUTO_def CBW_BW_def)

lemma color_bw_setter_fail:
  "list_index CBW cbw = Inr i \<Longrightarrow>
   u_camera s (calls s) (SetAttr ''day_night_color'' (PInt i)) = Inl (AmcrestError e) \<Longrightarrow>
   color_bw_setter cbw s =
     (None, s\<lparr>calls := calls s @ [SetAttr ''day_night_color'' (PInt i)],
              log := log s @ [LogError ''Could not set %s camera color mode to %s due to error: %s''
                    [ArgStr (u_name s), ArgStr cbw, ArgExn (AmcrestError e)]]\<rparr>)"
  by (simp add: color_bw_setter_def dev_call_def log_error_def)

lemma color_bw_setter_ok:
  "list_index CBW cbw = Inr i \<Longrightarrow>
   u_camera s (calls s) (SetAttr ''day_night_color'' (PInt i)) = Inr v \<Longrightarrow>
   color_bw_setter cbw s =
     (None, s\<lparr>calls := calls s @ [SetAttr ''day_night_color'' (PInt i)],
              u_color_bw := PStr cbw, scheduled := Suc (scheduled s)\<rparr>)"
  by (simp add: color_bw_setter_def dev_call_def OPTIMISTIC_def schedule_update_ha_state_def)

text \<open>
  Claim C2. For each of the five setters (recording, motion detection, video stream,
  audio, colour mode): when the assignment to the device client raises the client's
  error \<^verbatim>\<open>AmcrestError\<close>, the setter returns without an exception, the client was called
  once, one error record was logged that names the camera, the action (the word
  \<^verbatim>\<open>enable\<close> or \<^verbatim>\<open>disable\<close>, or the colour mode asked for) and the error, and the
  object is otherwise what it was: every cached field keeps its value and no state update
  is scheduled.
\<close>

theorem mutation_failure_keeps_cache:
  "(u_camera s (calls s) (SetAttr ''record_mode'' (PInt (if enable then 1 else 0)))
      = Inl (AmcrestError e) \<longrightarrow>
    is_recording_setter enable s =
      (None, s\<lparr>calls := calls s @ [SetAttr ''record_mode'' (PInt (if enable then 1 else 0))],
               log := log s @ [LogError ''Could not %s %s camera recording due to error: %s''
                     [ArgStr (if enable then ''enable'' else ''disable''), ArgStr (u_name s),
                      ArgExn (AmcrestError e)]]\<rparr>))
   \<and> (u_camera s (calls s)
        (SetAttr ''motion_detection'' (PStr (if enable then ''true'' else ''false'')))
      = Inl (AmcrestError e) \<longrightarrow>
    motion_detection_enabled_setter enable s =
      (None, s\<lparr>calls := calls s @ [SetAttr ''motion_detection''
                                      (PStr (if enable then ''true'' else ''false''))],
               log := log s @ [LogError
                     ''Could not %s %s camera motion detection due to error: %s''
                     [ArgStr (if enable then ''enable'' else ''disable''), ArgStr (u_name s),
                      ArgExn (AmcrestError e)]]\<rparr>))
   \<and> (u_camera s (calls s) (SetAttr ''video_enabled'' (PBool enable))
      = Inl (AmcrestError e) \<longrightarrow>
    video_enabled_setter enable s =
      (None, s\<lparr>calls := calls s @ [SetAttr ''video_enabled'' (PBool enable)],
               log := log s @ [LogError ''Could not %s %s camera video stream due to error: %s''
                     [ArgStr (if enable then ''enable'' else ''disable''), ArgStr (u_name s),
                      ArgExn (AmcrestError e)]]\<rparr>))
   \<and> (u_camera s (calls s) (SetAttr ''audio_enabled'' (PBool enable))
      = Inl (AmcrestError e) \<longrightarrow>
    audio_enabled_setter enable s =
      (None, s\<lparr>calls := calls s @ [SetAttr ''audio_enabled'' (PBool enable)],
               log := log s @ [LogError ''Could not %s %s camera audio stream due to error: %s''
                     [ArgStr (if enable then ''enable'' else ''disable''), ArgStr (u_name s),
                      ArgExn (AmcrestError e)]]\<rparr>))
   \<and> (list_index CBW cbw = Inr i
      \<and> u_camera s (calls s) (SetAttr ''day_night_color'' (PInt i))
      = Inl (AmcrestError e) \<longrightarrow>
    color_bw_setter cbw s =
      (None, s\<lparr>calls := calls s @ [SetAttr ''day_night_color'' (PInt i)],
               log := log s @ [LogError
                     ''Could not set %s camera color mode to %s due to error: %s''
                     [ArgStr (u_name s), ArgStr cbw, ArgExn (AmcrestError e)]]\<rparr>))"
  by (intro conjI impI)
     (simp_all only: is_recording_setter_fail motion_detection_enabled_setter_fail
        video_enabled_setter_fail audio_enabled_setter_fail color_bw_setter_fail)

theorem mutation_failure_keeps_cache_witness:
  "u_camera (front_door failing_device) (calls (front_door failing_device))
       (SetAttr ''record_mode'' (PInt 1)) = Inl (AmcrestError ''timed out'')
   \<and> is_recording_setter True (front_door failing_device) =
       (None, (front_door failing_device)
          \<lparr>calls := [SetAttr ''record_mode'' (PInt 1)],
           log := [LogError ''Could not %s %s camera recording due to error: %s''
                    [ArgStr ''enable'', ArgStr ''Front door'',
                     ArgExn (AmcrestError ''timed out'')]]\<rparr>)
   \<and> motion_detection_enabled_setter True (front_door failing_device) =
       (None, (front_door failing_device)
          \<lparr>calls := [SetAttr ''motion_detection'' (PStr ''true'')],
           log := [LogError ''Could not %s %s camera motion detection due to error: %s''
                    [ArgStr ''enable'', ArgStr ''Front door'',
                     ArgExn (AmcrestError ''timed out'')]]\<rparr>)
   \<and> video_enabled_setter True (front_door failing_device) =
       (None, (front_door failing_device)
          \<lparr>calls := [SetAttr ''video_enabled'' (PBool True)],
           log := [LogError ''Could not %s %s camera video stream due to error: %s''
                    [ArgStr ''enable'', ArgStr ''Front door'',
                     ArgExn (AmcrestError ''timed out'')]]\<rparr>)
   \<and> audio_enabled_setter True (front_door failing_device) =
       (None, (front_door failing_device)
          \<lparr>calls := [SetAttr ''audio_enabled'' (PBool True)],
           log := [LogError ''Could not %s %s camera audio stream due to error: %s''
                    [ArgStr ''enable'', ArgStr ''Front door'',
                     ArgExn (AmcrestError ''timed out'')]]\<rparr>)
   \<and> list_index CBW ''bw'' = Inr 2
   \<and> color_bw_setter ''bw'' (front_door failing_device) =
       (None, (front_door failing_device)
          \<lparr>calls := [SetAttr ''day_night_color'' (PInt 2)],
           log := [LogError ''Could not set %s camera color mode to %s due to error: %s''
                    [ArgStr ''Front door'', ArgStr ''bw'',
                     ArgExn (AmcrestError ''timed out'')]]\<rparr>)"
  using mutation_failure_keeps_cache [of "front_door failing_device" True "''timed out''"
      "''bw''" 2]
  by (simp add: front_door_def failing_device_def init_def CBW_index)

text \<open>
  Claim C3. \<open>OPTIMISTIC\<close> is true in this module. For each of the five setters: when the
  assignment to the device client returns, the setter returns without an exception, the
  one cached field of that command holds the requested value, \<^verbatim>\<open>schedule_update_ha_state\<close>
  was called once, and every other cached field is unchanged.
\<close>

theorem mutation_success_updates_one_field:
  "(u_camera s (calls s) (SetAttr ''record_mode'' (PInt (if enable then 1 else 0))) = Inr v \<longrightarrow>
    is_recording_setter enable s =
      (None, s\<lparr>calls := calls s @ [SetAttr ''record_mode'' (PInt (if enable then 1 else 0))],
               u_is_recording := PBool enable, scheduled := Suc (scheduled s)\<rparr>))
   \<and> (u_camera s (calls s)
        (SetAttr ''motion_detection'' (PStr (if enable then ''true'' else ''false''))) = Inr v
      \<longrightarrow>
    motion_detection_enabled_setter enable s =
      (None, s\<lparr>calls := calls s @ [SetAttr ''motion_detection''
                                      (PStr (if enable then ''true'' else ''false''))],
               u_motion_detection_enabled := PBool enable,
               scheduled := Suc (scheduled s)\<rparr>))
   \<and> (u_camera s (calls s) (SetAttr ''video_enabled'' (PBool enable)) = Inr v \<longrightarrow>
    video_enabled_setter enable s =
      (None, s\<lparr>calls := calls s @ [SetAttr ''video_enabled'' (PBool enable)],
               is_streaming := PBool enable, scheduled := Suc (scheduled s)\<rparr>))
   \<and> (u_camera s (calls s) (SetAttr ''audio_enabled'' (PBool enable)) = Inr v \<longrightarrow>
    audio_enabled_setter enable s =
      (None, s\<lparr>calls := calls s @ [SetAttr ''audio_enabled'' (PBool enable)],
               u_audio_enabled := PBool enable, scheduled := Suc (scheduled s)\<rparr>))
   \<and> (list_index CBW cbw = Inr i
      \<and> u_camera s (calls s) (SetAttr ''day_night_color'' (PInt i)) = Inr v \<longrightarrow>
    color_bw_setter cbw s =
      (None, s\<lparr>calls := calls s @ [SetAttr ''day_night_color'' (PInt i)],
               u_color_bw := PStr cbw, scheduled := Suc (scheduled s)\<rparr>))"
  by (intro conjI impI)
     (simp_all only: is_recording_setter_ok motion_detection_enabled_setter_ok
        video_enabled_setter_ok audio_enabled_setter_ok color_bw_setter_ok)

theorem mutation_success_updates_one_field_witness:
  "OPTIMISTIC
   \<and> u_camera (front_door echo_device) (calls (front_door echo_device))
       (SetAttr ''record_mode'' (PInt 1)) = Inr PNone
   \<and> is_recording_setter True (front_door echo_device) =
       (None, (front_door echo_device)
          \<lparr>calls := [SetAttr ''record_mode'' (PInt 1)],
           u_is_recording := PBool True, scheduled := 1\<rparr>)
   \<and> motion_detection_enabled_setter True (front_door echo_device) =
       (None, (front_door echo_device)
          \<lparr>calls := [SetAttr ''motion_detection'' (PStr ''true'')],
           u_motion_detection_enabled := PBool True, scheduled := 1\<rparr>)
   \<and> video_enabled_setter True (front_door echo_device) =
       (None, (front_door echo_device)
          \<lparr>calls := [SetAttr ''video_enabled'' (PBool True)],
           is_streaming := PBool True, scheduled := 1\<rparr>)
   \<and> audio_enabled_setter True (front_door echo_device) =
       (None, (front_door echo_device)
          \<lparr>calls := [SetAttr ''audio_enabled'' (PBool True)],
           u_audio_enabled := PBool True, scheduled := 1\<rparr>)
   \<and> list_index CBW ''auto'' = Inr 1
   \<and> color_bw_setter ''auto'' (front_door echo_device) =
       (None, (front_door echo_device)
          \<lparr>calls := [SetAttr ''day_night_color'' (PInt 1)],
           u_color_bw := PStr ''auto'', scheduled := 1\<rparr>)"
  using mutation_success_updates_one_field [of "front_door echo_device" True PNone
      "''auto''" 1]
  by (simp add: front_door_def echo_device_def init_def CBW_index OPTIMISTIC_def)

text \<open>
  Claim C4. \<^verbatim>\<open>turn_off\<close> assigns \<^verbatim>\<open>record_mode = 0\<close> and then \<^verbatim>\<open>video_enabled = False\<close>
  on the device client, in that order and each once, whether the first assignment
  returns or fails with the client's error \<^verbatim>\<open>AmcrestError\<close>.
\<close>

theorem turn_off_attempts_both:
  assumes "\<forall>x. u_camera s (calls s) (SetAttr ''record_mode'' (PInt 0)) = Inl x
               \<longrightarrow> (\<exists>e. x = AmcrestError e)"
  shows "calls (snd (turn_off s)) =
           calls s @ [SetAttr ''record_mode'' (PInt 0), SetAttr ''video_enabled'' (PBool False)]"
proof (cases "u_camera s (calls s) (SetAttr ''record_mode'' (PInt 0))")
  case (Inl x)
  with assms obtain e where
    e: "u_camera s (calls s) (SetAttr ''record_mode'' (PInt (if False then 1 else 0)))
          = Inl (AmcrestError e)"
    by auto
  show ?thesis
    unfolding turn_off_def run_stmts.simps is_recording_setter_fail [OF e]
    by (simp add: video_enabled_setter_def dev_call_def log_error_def OPTIMISTIC_def
        schedule_update_ha_state_def split: sum.split exn.split)
next
  case (Inr v)
  then have v: "u_camera s (calls s) (SetAttr ''record_mode'' (PInt (if False then 1 else 0)))
          = Inr v"
    by simp
  show ?thesis
    unfolding turn_off_def run_stmts.simps is_recording_setter_ok [OF v]
    by (simp add: video_enabled_setter_def dev_call_def log_error_def OPTIMISTIC_def
        schedule_update_ha_state_def split: sum.split exn.split)
qed

theorem turn_off_attempts_both_witness:
  "u_camera (front_door failing_device) (calls (front_door failing_device))
          (SetAttr ''record_mode'' (PInt 0)) = Inl (AmcrestError ''timed out'')
   \<and> calls (snd (turn_off (front_door failing_device))) =
        [SetAttr ''record_mode'' (PInt 0), SetAttr ''video_enabled'' (PBool False)]"
proof -
  have h: "\<forall>x. u_camera (front_door failing_device) (calls (front_door failing_device))
          (SetAttr ''record_mode'' (PInt 0)) = Inl x \<longrightarrow> (\<exists>e. x = AmcrestError e)"
    by (simp add: front_door_def failing_device_def init_def)
  show ?thesis
    using h turn_off_attempts_both [OF h]
    by (simp add: front_door_def failing_device_def init_def)
qed

lemma CBW_getitem:
  "list_index CBW cbw = Inr i \<Longrightarrow> 0 \<le> i \<and> i < 3 \<and> CBW ! nat i = cbw
     \<and> list_getitem_val CBW (PInt i) = Inr cbw"
  by (auto simp: CBW_def CBW_COLOR_def CBW_AUTO_def CBW_BW_def list_getitem_def
      split: if_splits)

lemma refresh_color_bw_ok:
  "u_camera t (calls t) (GetAttr ''day_night_color'') = Inr v \<Longrightarrow>
   list_getitem_val CBW v = Inr cbw \<Longrightarrow>
   refresh_color_bw t =
     (None, t\<lparr>calls := calls t @ [GetAttr ''day_night_color''], u_color_bw := PStr cbw\<rparr>)"
  by (simp add: refresh_color_bw_def dev_call_def)

lemma color_bw_setter_calls:
  "list_index CBW cbw = Inr i \<Longrightarrow>
   calls (snd (color_bw_setter cbw s)) = calls s @ [SetAttr ''day_night_color'' (PInt i)]"
  by (simp add: color_bw_setter_def dev_call_def log_error_def OPTIMISTIC_def
      schedule_update_ha_state_def split: sum.split exn.split)

text \<open>
  Claim C5. \<^verbatim>\<open>CBW.index\<close> maps \<^verbatim>\<open>color\<close>, \<^verbatim>\<open>auto\<close>, \<^verbatim>\<open>bw\<close> to 0, 1, 2 and is defined
  on each token of \<open>CBW\<close>. When it maps the token \<open>cbw\<close> to \<open>i\<close>, the colour setter
  writes \<open>i\<close> to \<^verbatim>\<open>day_night_color\<close>, indexing \<open>CBW\<close> with \<open>i\<close> gives \<open>cbw\<close> again,
  and a refresh that reads \<open>i\<close> from the device caches \<open>cbw\<close> as the colour mode.
\<close>

theorem color_mode_round_trip:
  "list_index CBW CBW_COLOR = Inr 0 \<and> list_index CBW CBW_AUTO = Inr 1
   \<and> list_index CBW CBW_BW = Inr 2
   \<and> (cbw \<in> set CBW \<longrightarrow> (\<exists>k. list_index CBW cbw = Inr k))
   \<and> (list_index CBW cbw = Inr i \<longrightarrow>
        0 \<le> i \<and> i < 3 \<and> CBW ! nat i = cbw
        \<and> calls (snd (color_bw_setter cbw s)) =
            calls s @ [SetAttr ''day_night_color'' (PInt i)]
        \<and> list_getitem_val CBW (PInt i) = Inr cbw
        \<and> (u_camera t (calls t) (GetAttr ''day_night_color'') = Inr (PInt i) \<longrightarrow>
             refresh_color_bw t =
               (None, t\<lparr>calls := calls t @ [GetAttr ''day_night_color''],
                        u_color_bw := PStr cbw\<rparr>)))"
proof (intro conjI impI)
  show "list_index CBW CBW_COLOR = Inr 0" "list_index CBW CBW_AUTO = Inr 1"
    "list_index CBW CBW_BW = Inr 2"
    by (simp_all add: CBW_def CBW_COLOR_def CBW_AUTO_def CBW_BW_def)
next
  assume "cbw \<in> set CBW"
  then show "\<exists>k. list_index CBW cbw = Inr k"
    by (auto simp: CBW_def CBW_COLOR_def CBW_AUTO_def CBW_BW_def)
next
  assume i: "list_index CBW cbw = Inr i"
  from CBW_getitem [OF i] show "0 \<le> i" "i < 3" "CBW ! nat i = cbw"
    "list_getitem_val CBW (PInt i) = Inr cbw"
    by simp_all
  from i show "calls (snd (color_bw_setter cbw s)) =
      calls s @ [SetAttr ''day_night_color'' (PInt i)]"
    by (rule color_bw_setter_calls)
  assume "u_camera t (calls t) (GetAttr ''day_night_color'') = Inr (PInt i)"
  then show "refresh_color_bw t =
      (None, t\<lparr>calls := calls t @ [GetAttr ''day_night_color''], u_color_bw := PStr cbw\<rparr>)"
    using CBW_getitem [OF i] by (simp add: refresh_color_bw_ok)
qed

theorem color_mode_round_trip_witness:
  "''bw'' \<in> set CBW
   \<and> list_index CBW ''bw'' = Inr 2
   \<and> calls (snd (color_bw_setter ''bw'' (front_door echo_device))) =
       [SetAttr ''day_night_color'' (PInt 2)]
   \<and> u_camera (snd (color_bw_setter ''bw'' (front_door echo_device)))
        (calls (snd (color_bw_setter ''bw'' (front_door echo_device))))
        (GetAttr ''day_night_color'') = Inr (PInt 2)
   \<and> u_color_bw (snd (refresh_color_bw
        ((snd (color_bw_setter ''bw'' (front_door echo_device)))\<lparr>u_color_bw := PNone\<rparr>)))
       = PStr ''bw''"
proof -
  let ?s = "front_door echo_device"
  let ?t = "(snd (color_bw_setter ''bw'' ?s))\<lparr>u_color_bw := PNone\<rparr>"
  have i: "list_index CBW ''bw'' = Inr 2"
    by (simp add: CBW_def CBW_COLOR_def CBW_AUTO_def CBW_BW_def)
  have c: "calls (snd (color_bw_setter ''bw'' ?s)) = [SetAttr ''day_night_color'' (PInt 2)]"
    by (simp add: color_bw_setter_calls [OF i] front_door_def init_def)
  have u: "u_camera (snd (color_bw_setter ''bw'' ?s)) = echo_device"
    by (simp add: color_bw_setter_def i dev_call_def log_error_def OPTIMISTIC_def
        schedule_update_ha_state_def front_door_def init_def echo_device_def)
  have r: "u_camera ?t (calls ?t) (GetAttr ''day_night_color'') = Inr (PInt 2)"
    by (simp add: c u echo_device_def)
  from color_mode_round_trip [of "''bw''" 2 ?s ?t] i r
  have "refresh_color_bw ?t =
      (None, ?t\<lparr>calls := calls ?t @ [GetAttr ''day_night_color''], u_color_bw := PStr ''bw''\<rparr>)"
    by blast
  then show ?thesis using i c u r
    by (simp add: CBW_def CBW_COLOR_def CBW_AUTO_def CBW_BW_def echo_device_def)
qed

section \<open>Stream handoff\<close>

text \<open>
  Claim C9. When the stream source is neither \<^verbatim>\<open>snapshot\<close> nor \<^verbatim>\<open>mjpeg\<close> and the
  transcoder was started (\<^verbatim>\<open>open_camera\<close> returned), the collaborators are invoked in
  the order start, relay, close, and \<^verbatim>\<open>stream.close\<close> exactly once, whatever the relay
  does: return, raise or be cancelled. The caller gets the relay's outcome unless
  \<^verbatim>\<open>close\<close> itself raises.
\<close>

theorem rtsp_stream_closed_once:
  assumes "dict_getitem (STREAM_SOURCE_LIST env) ''snapshot'' = Inr snapshot"
    and "dict_getitem (STREAM_SOURCE_LIST env) ''mjpeg'' = Inr mjpeg"
    and "u_stream_source s \<noteq> snapshot" and "u_stream_source s \<noteq> mjpeg"
    and "u_camera s (calls s) (RtspUrl (u_resolution s)) = Inr url"
    and "open_camera_outcome env = None"
  shows "snd (fst (handle_async_mjpeg_stream env s)) = [OpenCamera url, ProxyStream, StreamClose]
       \<and> count_list (snd (fst (handle_async_mjpeg_stream env s))) StreamClose = 1
       \<and> fst (fst (handle_async_mjpeg_stream env s)) =
           (case close_outcome env of Some e \<Rightarrow> Inl e | None \<Rightarrow> proxy_stream_outcome env)"
  using assms
  by (simp add: handle_async_mjpeg_stream_def stream_via_ffmpeg_def dev_call_def
      try_finally_def split: option.split prod.split)

theorem rtsp_stream_closed_once_witness:
  "dict_getitem (STREAM_SOURCE_LIST (stream_env_example (Inl CancelledError))) ''snapshot''
     = Inr (PInt 1)
   \<and> dict_getitem (STREAM_SOURCE_LIST (stream_env_example (Inl CancelledError))) ''mjpeg''
     = Inr (PInt 0)
   \<and> u_stream_source (front_door echo_device) = PInt 2
   \<and> u_camera (front_door echo_device) (calls (front_door echo_device))
        (RtspUrl (u_resolution (front_door echo_device))) = Inr PNone
   \<and> open_camera_outcome (stream_env_example (Inl CancelledError)) = None
   \<and> handle_async_mjpeg_stream (stream_env_example (Inl CancelledError))
        (front_door echo_device) =
        ((Inl CancelledError, [OpenCamera PNone, ProxyStream, StreamClose]),
         (front_door echo_device)\<lparr>calls := [RtspUrl (PInt 0)]\<rparr>)
   \<and> count_list (snd (fst (handle_async_mjpeg_stream (stream_env_example (Inl CancelledError))
        (front_door echo_device)))) StreamClose = 1"
  using rtsp_stream_closed_once [of "stream_env_example (Inl CancelledError)" "PInt 1" "PInt 0"
      "front_door echo_device" PNone]
  by (simp add: stream_env_example_def front_door_def init_def echo_device_def
      dict_getitem_def handle_async_mjpeg_stream_def stream_via_ffmpeg_def dev_call_def
      try_finally_def)

section \<open>Service targets\<close>

lemma target_cameras_listed:
  "data_entity_id call \<noteq> None \<Longrightarrow>
   map ((!) cams) (target_cameras ex (Some cams) call) =
     filter (\<lambda>c. entity_id c \<in> set (ex call)) cams"
proof -
  assume a: "data_entity_id call \<noteq> None"
  have "filter (\<lambda>c. entity_id c \<in> set (ex call)) (map ((!) cams) [0..<length cams]) =
        map ((!) cams) (filter (\<lambda>i. entity_id (cams ! i) \<in> set (ex call)) [0..<length cams])"
    by (simp add: filter_map comp_def)
  then show ?thesis using a by (simp add: target_cameras_def map_nth)
qed

lemma target_cameras_all:
  "data_entity_id call = None \<Longrightarrow> target_cameras ex (Some cams) call = [0..<length cams]"
  by (simp add: target_cameras_def)

lemma target_cameras_disjoint:
  "data_entity_id call \<noteq> None \<Longrightarrow> set (ex call) \<inter> entity_id ` set cams = {} \<Longrightarrow>
   target_cameras ex (Some cams) call = []"
  by (auto simp: target_cameras_def filter_empty_conv)

lemma handle_service_no_target:
  "target_cameras ex (Some cams) call = [] \<Longrightarrow>
   handle_service cmd ex (Some cams) call = (None, Some cams)"
  by (simp add: handle_service_def)

text \<open>
  Claim C8. With the entity ids that the host's helper returns for the call: when the
  call carries an entity-id entry, the targets are exactly the registered adapters whose
  entity id is among them, in registry order; when it carries none, the targets are all
  registered adapters; without a registry there is no target. When the call carries an
  entry and none of the ids belongs to a registered adapter, each of the three handlers
  returns without an exception and leaves every adapter as it was, so none received a
  command or made a device call.
\<close>

theorem service_router_targets:
  "(data_entity_id call \<noteq> None \<longrightarrow>
      map ((!) cams) (target_cameras ex (Some cams) call) =
        filter (\<lambda>c. entity_id c \<in> set (ex call)) cams)
   \<and> (data_entity_id call = None \<longrightarrow>
      map ((!) cams) (target_cameras ex (Some cams) call) = cams)
   \<and> target_cameras ex None call = []
   \<and> (data_entity_id call \<noteq> None \<and> set (ex call) \<inter> entity_id ` set cams = {} \<longrightarrow>
      target_cameras ex (Some cams) call = []
      \<and> async_service_handler ex (Some cams) call = (None, Some cams)
      \<and> async_goto_preset ex (Some cams) call = (None, Some cams)
      \<and> async_set_color_bw ex (Some cams) call = (None, Some cams))"
  by (simp add: target_cameras_listed target_cameras_all map_nth target_cameras_disjoint
      handle_service_no_target async_service_handler_def async_goto_preset_def
      async_set_color_bw_def)
     (simp add: target_cameras_def)

theorem service_router_targets_witness:
  "data_entity_id (call_example SERVICE_ENABLE_RECORDING (Some (PTuple [PStr ''camera.attic''])))
     = Some (PTuple [PStr ''camera.attic''])
   \<and> set (plain_entity_ids
         (call_example SERVICE_ENABLE_RECORDING (Some (PTuple [PStr ''camera.attic'']))))
       \<inter> entity_id ` set two_cameras = {}
   \<and> async_service_handler plain_entity_ids (Some two_cameras)
        (call_example SERVICE_ENABLE_RECORDING (Some (PTuple [PStr ''camera.attic''])))
       = (None, Some two_cameras)
   \<and> map ((!) two_cameras) (target_cameras plain_entity_ids (Some two_cameras)
        (call_example SERVICE_ENABLE_RECORDING (Some (PTuple [PStr ''camera.garage'']))))
       = [two_cameras ! 1]
   \<and> data_entity_id (call_example SERVICE_ENABLE_RECORDING None) = None
   \<and> map ((!) two_cameras) (target_cameras plain_entity_ids (Some two_cameras)
        (call_example SERVICE_ENABLE_RECORDING None))
       = two_cameras"
  using
    service_router_targets [of
      "call_example SERVICE_ENABLE_RECORDING (Some (PTuple [PStr ''camera.attic'']))"
      two_cameras plain_entity_ids]
    service_router_targets [of
      "call_example SERVICE_ENABLE_RECORDING (Some (PTuple [PStr ''camera.garage'']))"
      two_cameras plain_entity_ids]
    service_router_targets [of "call_example SERVICE_ENABLE_RECORDING None"
      two_cameras plain_entity_ids]
  by (simp add: call_example_def two_cameras_def plain_entity_ids_def front_door_def init_def)

section \<open>Refreshing the cache: an aborted cycle\<close>

lemma run_stmts_append:
  "run_stmts (xs @ ys) s =
     (case run_stmts xs s of (None, t) \<Rightarrow> run_stmts ys t | (Some e, t) \<Rightarrow> (Some e, t))"
  by (induction xs arbitrary: s) (auto split: prod.splits option.splits)

lemma run_stmts_preserves:
  assumes "\<And>f s. f \<in> set fs \<Longrightarrow> I (Q s) \<Longrightarrow> Q (snd (f s)) = Q s" and "I (Q s)"
  shows "Q (snd (run_stmts fs s)) = Q s"
  using assms
proof (induction fs arbitrary: s)
  case Nil
  then show ?case by simp
next
  case (Cons f fs)
  have q: "Q (snd (f s)) = Q s" using Cons.prems by simp
  show ?case
  proof (cases "f s")
    case (Pair r t)
    then have qt: "Q t = Q s" using q by simp
    show ?thesis
    proof (cases r)
      case None
      have "Q (snd (run_stmts fs t)) = Q t"
        using Cons.prems qt by (intro Cons.IH) auto
      then show ?thesis using Pair None qt by simp
    next
      case (Some e)
      then show ?thesis using Pair qt by simp
    qed
  qed
qed

lemma get_cam_attr_frame:
  "get_cam_attr a s = (r, t) \<Longrightarrow>
   dyn_obs t = dyn_obs s \<and> u_static_attrs t = u_static_attrs s \<and> u_model t = u_model s
   \<and> u_camera t = u_camera s \<and> calls t = calls s @ [GetAttr a]
   \<and> (\<forall>e. r \<noteq> Inl (AmcrestError e))"
  by (auto simp: get_cam_attr_def dev_call_def log_error_def dyn_obs_def
      split: sum.splits exn.splits)

lemma extract_attr_no_amcrest: "extract_attr v sep \<noteq> Inl (AmcrestError e)"
  by (auto simp: extract_attr_def resp_split_last_strip_def str_split_def list_getitem_def
      split: pyval.splits sum.splits exn.splits if_splits)

lemma update_cam_attr_frame:
  "update_cam_attr a s = (r, t) \<Longrightarrow>
   dyn_obs t = dyn_obs s \<and> u_model t = u_model s \<and> u_camera t = u_camera s
   \<and> calls t = calls s @ [GetAttr a] \<and> (\<forall>e. r \<noteq> Some (AmcrestError e))"
proof -
  assume a: "update_cam_attr a s = (r, t)"
  obtain r1 t1 where g: "get_cam_attr a s = (r1, t1)" by (cases "get_cam_attr a s")
  note f = get_cam_attr_frame [OF g]
  show ?thesis
    using a g f extract_attr_no_amcrest
    by (auto simp: update_cam_attr_def dyn_obs_def split: sum.splits if_splits)
qed

lemma unpack2_error: "unpack2 v = Inl e \<Longrightarrow> e = TypeError \<or> e = ValueError"
  by (auto simp: unpack2_def split: option.splits list.splits)

lemma update_software_information_frame:
  "update_software_information s = (r, t) \<Longrightarrow>
   dyn_obs t = dyn_obs s \<and> u_model t = u_model s \<and> u_camera t = u_camera s
   \<and> calls t = calls s @ [GetAttr ''software_information'']
   \<and> (\<forall>e. r \<noteq> Some (AmcrestError e))"
proof -
  assume a: "update_software_information s = (r, t)"
  obtain r1 t1 where g: "get_cam_attr ''software_information'' s = (r1, t1)"
    by (cases "get_cam_attr ''software_information'' s")
  note f = get_cam_attr_frame [OF g]
  show ?thesis
    using a g f extract_attr_no_amcrest
    by (auto simp: update_software_information_def dyn_obs_def log_error_def Let_def
        dest: unpack2_error split: sum.splits exn.splits prod.splits)
qed

lemma run_stmts_no_error:
  assumes "\<And>f s. f \<in> set fs \<Longrightarrow> fst (f s) \<noteq> Some e"
  shows "fst (run_stmts fs s) \<noteq> Some e"
  using assms
proof (induction fs arbitrary: s)
  case Nil
  then show ?case by simp
next
  case (Cons f fs)
  show ?case
  proof (cases "f s")
    case (Pair r t)
    with Cons.prems [of f s] Cons.IH [of t] Cons.prems show ?thesis
      by (cases r) auto
  qed
qed

lemma update_static_attrs_frame:
  "dyn_obs (snd (update_static_attrs s)) = dyn_obs s"
  "u_model (snd (update_static_attrs s)) = u_model s"
  "fst (update_static_attrs s) \<noteq> Some (AmcrestError e)"
proof -
  have member: "f = update_software_information \<or> (\<exists>a. f = update_cam_attr a)"
    if "f \<in> set (map update_cam_attr [''hardware_version'', ''machine_name'', ''serial_number'']
                @ [update_software_information])" for f
    using that by auto
  note c = update_cam_attr_frame [OF surjective_pairing]
  note w = update_software_information_frame [OF surjective_pairing]
  have pres: "(dyn_obs (snd (f x)), u_model (snd (f x))) = (dyn_obs x, u_model x)"
      and noerr: "fst (f x) \<noteq> Some (AmcrestError e)"
    if "f \<in> set (map update_cam_attr [''hardware_version'', ''machine_name'', ''serial_number'']
                @ [update_software_information])" for f x
    using member [OF that] c w by auto
  have "(dyn_obs (snd (update_static_attrs s)), u_model (snd (update_static_attrs s)))
      = (dyn_obs s, u_model s)"
    unfolding update_static_attrs_def
    by (rule run_stmts_preserves [where I = "\<lambda>_. True"
          and Q = "\<lambda>s. (dyn_obs s, u_model s)"]) (use pres in auto)
  then show "dyn_obs (snd (update_static_attrs s)) = dyn_obs s"
    "u_model (snd (update_static_attrs s)) = u_model s" by simp_all
  show "fst (update_static_attrs s) \<noteq> Some (AmcrestError e)"
    unfolding update_static_attrs_def by (rule run_stmts_no_error) (use noerr in auto)
qed

lemma refresh_static_attrs_frame:
  "dyn_obs (snd (refresh_static_attrs s)) = dyn_obs s"
  "fst (refresh_static_attrs s) \<noteq> Some (AmcrestError e)"
  by (simp_all add: refresh_static_attrs_def update_static_attrs_frame)

lemma refresh_model_frame:
  "dyn_obs (snd (refresh_model s)) = dyn_obs s"
  "u_static_attrs (snd (refresh_model s)) = u_static_attrs s"
  "fst (refresh_model s) \<noteq> Some (AmcrestError e)"
  using get_cam_attr_frame [OF surjective_pairing, of "''device_type''" s]
    extract_attr_no_amcrest
  by (auto simp: refresh_model_def dyn_obs_def split: prod.splits sum.splits)

lemma less_5_cases: "k < (5::nat) \<Longrightarrow> k = 0 \<or> k = 1 \<or> k = 2 \<or> k = 3 \<or> k = 4"
  by arith

lemma dynamic_refresh_fail:
  assumes "k < 5" and "u_camera t (calls t) (dynamic_reads ! k) = Inl x"
  shows "(dynamic_refresh ! k) t = (Some x, t\<lparr>calls := calls t @ [dynamic_reads ! k]\<rparr>)"
  using less_5_cases [OF assms(1)] assms(2)
  by (auto simp: dynamic_refresh_def dynamic_reads_def dev_call_def refresh_is_streaming_def
      refresh_is_recording_def refresh_motion_detection_enabled_def refresh_audio_enabled_def
      refresh_color_bw_def)

lemma refresh_is_streaming_others:
  "u_is_recording (snd (refresh_is_streaming s)) = u_is_recording s"
  "u_motion_detection_enabled (snd (refresh_is_streaming s)) = u_motion_detection_enabled s"
  "u_audio_enabled (snd (refresh_is_streaming s)) = u_audio_enabled s"
  "u_color_bw (snd (refresh_is_streaming s)) = u_color_bw s"
  "u_name (snd (refresh_is_streaming s)) = u_name s"
  by (simp_all add: refresh_is_streaming_def dev_call_def split: sum.split)

lemma refresh_is_recording_others:
  "u_motion_detection_enabled (snd (refresh_is_recording s)) = u_motion_detection_enabled s"
  "u_audio_enabled (snd (refresh_is_recording s)) = u_audio_enabled s"
  "u_color_bw (snd (refresh_is_recording s)) = u_color_bw s"
  "u_name (snd (refresh_is_recording s)) = u_name s"
  by (simp_all add: refresh_is_recording_def dev_call_def split: sum.split)

lemma refresh_motion_detection_enabled_others:
  "u_audio_enabled (snd (refresh_motion_detection_enabled s)) = u_audio_enabled s"
  "u_color_bw (snd (refresh_motion_detection_enabled s)) = u_color_bw s"
  "u_name (snd (refresh_motion_detection_enabled s)) = u_name s"
  by (simp_all add: refresh_motion_detection_enabled_def dev_call_def split: sum.split)

lemma refresh_audio_enabled_others:
  "u_color_bw (snd (refresh_audio_enabled s)) = u_color_bw s"
  "u_name (snd (refresh_audio_enabled s)) = u_name s"
  by (simp_all add: refresh_audio_enabled_def dev_call_def split: sum.split)

lemmas refresh_others = refresh_is_streaming_others refresh_is_recording_others
  refresh_motion_detection_enabled_others refresh_audio_enabled_others

lemma static_stage_later_fields:
  "later_fields k (snd (refresh_model s)) = later_fields k s"
  "later_fields k (snd (refresh_static_attrs s)) = later_fields k s"
  using refresh_model_frame(1) [of s] refresh_static_attrs_frame(1) [of s]
    set_drop_subset [of k cached_fields]
  by (auto simp: later_fields_def dyn_obs_def cached_fields_def)

lemma dynamic_prefix_later_fields:
  assumes "k < 5" and "f \<in> set (take k dynamic_refresh)"
  shows "later_fields k (snd (f s)) = later_fields k s"
  using less_5_cases [OF assms(1)] assms(2)
  by (auto simp: later_fields_def cached_fields_def dynamic_refresh_def refresh_others)

lemma update_try_split:
  "k < 5 \<Longrightarrow>
   update_try = run_stmts (([refresh_model, refresh_static_attrs] @ take k dynamic_refresh)
                           @ (dynamic_refresh ! k # drop (Suc k) dynamic_refresh))"
proof -
  assume "k < 5"
  then have "dynamic_refresh = take k dynamic_refresh @ dynamic_refresh ! k
      # drop (Suc k) dynamic_refresh"
    by (intro id_take_nth_drop) (simp add: dynamic_refresh_def)
  moreover have "update_try = run_stmts ([refresh_model, refresh_static_attrs] @ dynamic_refresh)"
    by (simp add: update_try_def dynamic_refresh_def)
  ultimately show ?thesis by simp
qed

text \<open>
  Claim C1, as amended. The five dynamic reads of \<^verbatim>\<open>update\<close> are numbered 0 to 4 in
  source order. When the statements before read \<open>k\<close> completed and left the object in
  state \<open>t\<close>, and read \<open>k\<close> raises the client's error \<^verbatim>\<open>AmcrestError\<close>, then
  \<^verbatim>\<open>update\<close> returns without an exception, the object is \<open>t\<close> with the failed call
  recorded and one error record logged that names the camera and the error, and the
  cached field of read \<open>k\<close> and of every later read holds the value it had before the
  refresh. Nothing is rolled back: what the earlier statements of the cycle stored stays.
\<close>

theorem refresh_abort_keeps_later_fields:
  assumes "k < 5"
    and "run_stmts ([refresh_model, refresh_static_attrs] @ take k dynamic_refresh)
           (log_debug ''Pulling data from %s camera'' [ArgStr (u_name s)] s) = (None, t)"
    and "u_camera t (calls t) (dynamic_reads ! k) = Inl (AmcrestError e)"
  shows "update s =
           (None, t\<lparr>calls := calls t @ [dynamic_reads ! k],
                    log := log t @ [LogError ''Could not get %s camera attributes due to error: %s''
                                     [ArgStr (u_name s), ArgExn (AmcrestError e)]]\<rparr>)
         \<and> (\<forall>f \<in> set (drop k cached_fields). f (snd (update s)) = f s)"
proof -
  let ?s0 = "log_debug ''Pulling data from %s camera'' [ArgStr (u_name s)] s"
  let ?pre = "[refresh_model, refresh_static_attrs] @ take k dynamic_refresh"
  have pres: "later_fields k (snd (f x)) = later_fields k x" if "f \<in> set ?pre" for f x
    using that static_stage_later_fields dynamic_prefix_later_fields [OF assms(1)] by auto
  have "later_fields k (snd (run_stmts ?pre ?s0)) = later_fields k ?s0"
    by (rule run_stmts_preserves [where I = "\<lambda>_. True"]) (use pres in auto)
  moreover have "snd (run_stmts ?pre ?s0) = t"
    using assms(2) by simp
  moreover have "later_fields k ?s0 = later_fields k s"
    using set_drop_subset [of k cached_fields]
    by (auto simp: later_fields_def log_debug_def cached_fields_def)
  ultimately have lt: "later_fields k t = later_fields k s"
    by simp
  let ?rest = "dynamic_refresh ! k # drop (Suc k) dynamic_refresh"
  have "update_try ?s0 = run_stmts (?pre @ ?rest) ?s0"
    by (simp only: update_try_split [OF assms(1)])
  also have "\<dots> = (case run_stmts ?pre ?s0 of
        (None, t) \<Rightarrow> run_stmts ?rest t | (Some e, t) \<Rightarrow> (Some e, t))"
    by (rule run_stmts_append)
  also have "\<dots> = run_stmts ?rest t"
    by (simp only: assms(2) prod.case option.case)
  also have "\<dots> = (Some (AmcrestError e), t\<lparr>calls := calls t @ [dynamic_reads ! k]\<rparr>)"
    by (simp only: run_stmts.simps dynamic_refresh_fail [OF assms(1) assms(3)]
        prod.case option.case)
  finally have "update_try ?s0 =
      (Some (AmcrestError e), t\<lparr>calls := calls t @ [dynamic_reads ! k]\<rparr>)" .
  then have u: "update s =
           (None, t\<lparr>calls := calls t @ [dynamic_reads ! k],
                    log := log t @ [LogError ''Could not get %s camera attributes due to error: %s''
                                     [ArgStr (u_name s), ArgExn (AmcrestError e)]]\<rparr>)"
    using lt by (simp add: update_def log_error_def later_fields_def)
  have "map (\<lambda>f. f (snd (update s))) (drop k cached_fields) = map (\<lambda>f. f s) (drop k cached_fields)"
  proof -
    have "map (\<lambda>f. f (snd (update s))) (drop k cached_fields)
        = map (\<lambda>f. f t) (drop k cached_fields)"
      unfolding u using set_drop_subset [of k cached_fields]
      by (auto simp: cached_fields_def)
    then show ?thesis using lt by (auto simp: later_fields_def)
  qed
  then have "\<forall>f \<in> set (drop k cached_fields). f (snd (update s)) = f s"
    by (simp add: map_eq_conv)
  with u show ?thesis by blast
qed

lemma refreshed_once_eq:
  "update (front_door flaky_device) =
   (None, (front_door flaky_device)
      \<lparr>is_streaming := PBool False, u_is_recording := PBool True,
       u_motion_detection_enabled := PBool True, u_model := PStr ''IP2M-841'',
       u_static_attrs := [(''hardware_version'', PStr ''IP2M-841''),
                          (''machine_name'', PStr ''IP2M-841''),
                          (''serial_number'', PStr ''IP2M-841''),
                          (''software_version'', PStr ''2.420.AC00.18.R''),
                          (''software_build'', PStr ''2017-06-29'')],
       u_audio_enabled := PBool True, u_color_bw := PStr ''auto'',
       calls := [GetAttr ''device_type'', GetAttr ''hardware_version'',
                 GetAttr ''machine_name'', GetAttr ''serial_number'',
                 GetAttr ''software_information'', GetAttr ''video_enabled'',
                 GetAttr ''record_mode'', IsMotionDetectorOn, GetAttr ''audio_enabled'',
                 GetAttr ''day_night_color''],
       log := [LogDebug ''Pulling data from %s camera'' [ArgStr ''Front door'']]\<rparr>)"
  by (simp add: update_def update_try_def log_debug_def front_door_def init_def
      refresh_model_def refresh_static_attrs_def update_static_attrs_def update_cam_attr_def
      update_software_information_def get_cam_attr_def dev_call_def flaky_device_def
      refresh_is_streaming_def refresh_is_recording_def refresh_motion_detection_enabled_def
      refresh_audio_enabled_def refresh_color_bw_def unpack2_def CBW_def CBW_COLOR_def
      CBW_AUTO_def CBW_BW_def list_getitem_def extract_attr_str str_strip_def isspace_def)

lemmas refresh_defs = update_def update_try_def log_debug_def log_error_def
  refresh_model_def refresh_static_attrs_def update_static_attrs_def update_cam_attr_def
  update_software_information_def get_cam_attr_def dev_call_def
  refresh_is_streaming_def refresh_is_recording_def refresh_motion_detection_enabled_def
  refresh_audio_enabled_def refresh_color_bw_def unpack2_def CBW_def CBW_COLOR_def
  CBW_AUTO_def CBW_BW_def list_getitem_def extract_attr_str str_strip_def isspace_def

lemma refreshed_twice_eq:
  "update refreshed_once =
   (None, refreshed_once
      \<lparr>is_streaming := PBool True,
       calls := calls refreshed_once @ [GetAttr ''video_enabled'', GetAttr ''record_mode''],
       log := log refreshed_once @
              [LogDebug ''Pulling data from %s camera'' [ArgStr ''Front door''],
               LogError ''Could not get %s camera attributes due to error: %s''
                 [ArgStr ''Front door'', ArgExn (AmcrestError ''timed out'')]]\<rparr>)"
  unfolding refreshed_once_def refreshed_once_eq snd_conv
  by (simp add: refresh_defs front_door_def init_def flaky_device_def)

text \<open>The claim as it was stated fails: after a first refresh without any error, a
  second refresh reads the video state, then fails on \<^verbatim>\<open>record_mode\<close>; it is aborted
  and logged, and \<open>is_streaming\<close> no longer has the value of the previous refresh.\<close>

theorem refresh_partial_update_counterexample:
  "fst (update (front_door flaky_device)) = None
   \<and> log (snd (update (front_door flaky_device)))
       = [LogDebug ''Pulling data from %s camera'' [ArgStr ''Front door'']]
   \<and> refreshed_once = snd (update (front_door flaky_device))
   \<and> is_streaming refreshed_once = PBool False
   \<and> u_camera refreshed_once
        (calls refreshed_once @ [GetAttr ''video_enabled'']) (GetAttr ''record_mode'')
       = Inl (AmcrestError ''timed out'')
   \<and> fst (update refreshed_once) = None
   \<and> last (log (snd (update refreshed_once)))
       = LogError ''Could not get %s camera attributes due to error: %s''
           [ArgStr ''Front door'', ArgExn (AmcrestError ''timed out'')]
   \<and> is_streaming (snd (update refreshed_once)) = PBool True
   \<and> is_streaming (snd (update refreshed_once)) \<noteq> is_streaming refreshed_once"
  unfolding refreshed_twice_eq
  unfolding refreshed_once_def refreshed_once_eq
  by (simp add: front_door_def init_def flaky_device_def)

theorem refresh_abort_keeps_later_fields_witness:
  "run_stmts ([refresh_model, refresh_static_attrs] @ take 1 dynamic_refresh)
      (log_debug ''Pulling data from %s camera'' [ArgStr (u_name refreshed_once)] refreshed_once)
     = (None, refreshed_once
          \<lparr>is_streaming := PBool True,
           calls := calls refreshed_once @ [GetAttr ''video_enabled''],
           log := log refreshed_once @
                  [LogDebug ''Pulling data from %s camera'' [ArgStr ''Front door'']]\<rparr>)
   \<and> u_camera refreshed_once (calls refreshed_once @ [GetAttr ''video_enabled''])
        (dynamic_reads ! 1) = Inl (AmcrestError ''timed out'')
   \<and> fst (update refreshed_once) = None
   \<and> calls (snd (update refreshed_once))
       = calls refreshed_once @ [GetAttr ''video_enabled'', GetAttr ''record_mode'']
   \<and> u_is_recording (snd (update refreshed_once)) = u_is_recording refreshed_once
   \<and> u_motion_detection_enabled (snd (update refreshed_once))
       = u_motion_detection_enabled refreshed_once
   \<and> u_audio_enabled (snd (update refreshed_once)) = u_audio_enabled refreshed_once
   \<and> u_color_bw (snd (update refreshed_once)) = u_color_bw refreshed_once"
proof -
  let ?t = "refreshed_once
          \<lparr>is_streaming := PBool True,
           calls := calls refreshed_once @ [GetAttr ''video_enabled''],
           log := log refreshed_once @
                  [LogDebug ''Pulling data from %s camera'' [ArgStr ''Front door'']]\<rparr>"
  have h2: "run_stmts ([refresh_model, refresh_static_attrs] @ take 1 dynamic_refresh)
      (log_debug ''Pulling data from %s camera'' [ArgStr (u_name refreshed_once)] refreshed_once)
     = (None, ?t)"
    unfolding refreshed_once_def refreshed_once_eq snd_conv
    by (simp add: refresh_defs dynamic_refresh_def front_door_def init_def flaky_device_def)
  have h3: "u_camera ?t (calls ?t) (dynamic_reads ! 1) = Inl (AmcrestError ''timed out'')"
    unfolding refreshed_once_def refreshed_once_eq snd_conv
    by (simp add: dynamic_reads_def front_door_def init_def flaky_device_def)
  have h1: "(1::nat) < 5" by simp
  from refresh_abort_keeps_later_fields [OF h1 h2 h3] h2 h3 show ?thesis
    by (simp add: cached_fields_def dynamic_reads_def)
qed

section \<open>Static attributes: the software information\<close>










section \<open>Static attributes are fetched once\<close>

lemma static_obs_effects:
  "static_obs (log_error fmt args s) = static_obs s"
  "static_obs (schedule_update_ha_state s) = static_obs s"
  "static_obs (s\<lparr>u_is_recording := v\<rparr>) = static_obs s"
  "static_obs (s\<lparr>u_motion_detection_enabled := v\<rparr>) = static_obs s"
  "static_obs (s\<lparr>is_streaming := v\<rparr>) = static_obs s"
  "static_obs (s\<lparr>u_audio_enabled := v\<rparr>) = static_obs s"
  "static_obs (s\<lparr>u_color_bw := v\<rparr>) = static_obs s"
  "static_obs (s\<lparr>u_model := v\<rparr>) = static_obs s"
  by (simp_all add: static_obs_def log_error_def schedule_update_ha_state_def)

lemma static_obs_call:
  "c \<notin> set static_attr_reads \<Longrightarrow> static_obs (s\<lparr>calls := calls s @ [c]\<rparr>) = static_obs s"
  by (simp add: static_obs_def)

lemma not_static_reads:
  "SetAttr a v \<notin> set static_attr_reads" "Tour b \<notin> set static_attr_reads"
  "GoToPreset p \<notin> set static_attr_reads" "IsMotionDetectorOn \<notin> set static_attr_reads"
  "GetAttr ''device_type'' \<notin> set static_attr_reads"
  "GetAttr ''video_enabled'' \<notin> set static_attr_reads"
  "GetAttr ''record_mode'' \<notin> set static_attr_reads"
  "GetAttr ''audio_enabled'' \<notin> set static_attr_reads"
  "GetAttr ''day_night_color'' \<notin> set static_attr_reads"
  by (simp_all add: static_attr_reads_def)

lemma guarded_write_static_obs:
  assumes "c \<notin> set static_attr_reads"
    and "\<And>t. static_obs (g t) = static_obs t"
  shows "static_obs (snd (case dev_call c s of
            (Inl (AmcrestError error), s1) \<Rightarrow> (None, log_error (fmt s1) (args error s1) s1)
          | (Inl e, s1) \<Rightarrow> (Some e, s1)
          | (Inr v, s1) \<Rightarrow> (None, g s1))) = static_obs s"
proof (cases "u_camera s (calls s) c")
  case (Inl e)
  then show ?thesis
    using assms(1) by (cases e) (simp_all add: dev_call_def static_obs_effects static_obs_call)
next
  case (Inr v)
  then show ?thesis
    using assms by (simp add: dev_call_def static_obs_call)
qed

lemma setters_static_obs:
  "static_obs (snd (is_recording_setter b s)) = static_obs s"
  "static_obs (snd (motion_detection_enabled_setter b s)) = static_obs s"
  "static_obs (snd (video_enabled_setter b s)) = static_obs s"
  "static_obs (snd (audio_enabled_setter b s)) = static_obs s"
  "static_obs (snd (color_bw_setter cbw s)) = static_obs s"
  "static_obs (snd (tour_on s)) = static_obs s"
  "static_obs (snd (tour_off s)) = static_obs s"
  "static_obs (snd (goto_preset p s)) = static_obs s"
  unfolding is_recording_setter_def motion_detection_enabled_setter_def
    video_enabled_setter_def audio_enabled_setter_def color_bw_setter_def tour_on_def
    tour_off_def goto_preset_def
  by (simp_all add: guarded_write_static_obs not_static_reads static_obs_effects
      dict_getitem_def rec_mode_def OPTIMISTIC_def split: sum.split)

lemma turn_off_static_obs: "static_obs (snd (turn_off s)) = static_obs s"
  unfolding turn_off_def
  by (rule run_stmts_preserves [where I = "\<lambda>_. True"]) (auto simp: setters_static_obs)

lemma refresh_stmts_static_obs:
  assumes "f \<in> set [refresh_model, refresh_static_attrs, refresh_is_streaming,
                refresh_is_recording, refresh_motion_detection_enabled,
                refresh_audio_enabled, refresh_color_bw]"
    and "fst (static_obs s) \<noteq> []"
  shows "static_obs (snd (f s)) = static_obs s"
proof -
  have m: "static_obs (snd (refresh_model s)) = static_obs s"
    using get_cam_attr_frame [OF surjective_pairing, of "''device_type''" s]
    by (auto simp: refresh_model_def static_obs_effects static_obs_call not_static_reads
        static_obs_def split: prod.splits sum.splits)
  have a: "static_obs (snd (refresh_static_attrs s)) = static_obs s"
    using assms(2) by (simp add: refresh_static_attrs_def static_obs_def)
  have d: "static_obs (snd (refresh_is_streaming s)) = static_obs s"
    "static_obs (snd (refresh_is_recording s)) = static_obs s"
    "static_obs (snd (refresh_motion_detection_enabled s)) = static_obs s"
    "static_obs (snd (refresh_audio_enabled s)) = static_obs s"
    "static_obs (snd (refresh_color_bw s)) = static_obs s"
    by (simp_all add: refresh_is_streaming_def refresh_is_recording_def
        refresh_motion_detection_enabled_def refresh_audio_enabled_def refresh_color_bw_def
        dev_call_def static_obs_effects static_obs_call not_static_reads split: sum.split)
  from assms(1) m a d show ?thesis by auto
qed

lemma update_static_obs:
  assumes "u_static_attrs s \<noteq> []"
  shows "static_obs (snd (update s)) = static_obs s"
proof -
  let ?s0 = "log_debug ''Pulling data from %s camera'' [ArgStr (u_name s)] s"
  have s0: "static_obs ?s0 = static_obs s"
    by (simp add: log_debug_def static_obs_def)
  have "static_obs (snd (update_try ?s0)) = static_obs ?s0"
    unfolding update_try_def
    by (rule run_stmts_preserves [where I = "\<lambda>q. fst q \<noteq> []"])
       (use assms s0 refresh_stmts_static_obs in \<open>auto simp: static_obs_def\<close>)
  moreover have "static_obs (snd (update s)) = static_obs (snd (update_try ?s0))"
    by (auto simp: update_def log_error_def static_obs_def
        split: prod.splits option.splits exn.splits)
  ultimately show ?thesis using s0 by simp
qed

lemma perform_static_obs:
  "u_static_attrs s \<noteq> [] \<Longrightarrow> static_obs (snd (perform opn s)) = static_obs s"
  by (cases opn)
     (simp_all add: update_static_obs turn_off_static_obs setters_static_obs turn_on_def
       enable_motion_detection_def disable_motion_detection_def enable_recording_def
       disable_recording_def set_color_bw_def enable_audio_def disable_audio_def)

text \<open>
  Claim C10. Once the static-attribute map is not empty, no request to the adapter, in
  any number and order (refreshes and commands), reads a static attribute from the
  device again or changes the map: the static reads in the trace of device calls stay
  the ones made before, and an attribute that is missing from the map stays missing.
\<close>

theorem static_attrs_never_completed:
  assumes "u_static_attrs s \<noteq> []"
  shows "u_static_attrs (perform_all ops s) = u_static_attrs s
       \<and> filter (\<lambda>c. c \<in> set static_attr_reads) (calls (perform_all ops s))
           = filter (\<lambda>c. c \<in> set static_attr_reads) (calls s)"
proof -
  have "static_obs (perform_all ops s) = static_obs s"
    using assms
  proof (induction ops arbitrary: s)
    case Nil
    then show ?case by simp
  next
    case (Cons opn ops)
    have p: "static_obs (snd (perform opn s)) = static_obs s"
      using Cons.prems by (rule perform_static_obs)
    then have "u_static_attrs (snd (perform opn s)) \<noteq> []"
      using Cons.prems by (simp add: static_obs_def)
    then have "static_obs (perform_all ops (snd (perform opn s)))
        = static_obs (snd (perform opn s))"
      by (rule Cons.IH)
    with p show ?case by simp
  qed
  then show ?thesis by (simp add: static_obs_def)
qed

lemma partly_described_eq:
  "partly_described =
   (front_door partial_device)
      \<lparr>is_streaming := PBool True, u_is_recording := PBool True,
       u_motion_detection_enabled := PBool True, u_model := PStr ''IP2M-841'',
       u_static_attrs := [(''hardware_version'', PStr ''IP2M-841''),
                          (''machine_name'', PStr ''IP2M-841''),
                          (''software_version'', PStr ''2.420.AC00.18.R''),
                          (''software_build'', PStr ''2017-06-29'')],
       u_audio_enabled := PBool True, u_color_bw := PStr ''color'',
       calls := [GetAttr ''device_type'', GetAttr ''hardware_version'',
                 GetAttr ''machine_name'', GetAttr ''serial_number'',
                 GetAttr ''software_information'', GetAttr ''video_enabled'',
                 GetAttr ''record_mode'', IsMotionDetectorOn, GetAttr ''audio_enabled'',
                 GetAttr ''day_night_color''],
       log := [LogDebug ''Pulling data from %s camera'' [ArgStr ''Front door''],
               LogError ''Could not get %s camera %s due to error: %s''
                 [ArgStr ''Front door'', ArgStr ''serial_number'',
                  ArgExn (AmcrestError ''timed out'')]]\<rparr>"
  unfolding partly_described_def
  by (simp add: refresh_defs front_door_def init_def partial_device_def
      device_with_software_def)

theorem static_attrs_never_completed_witness:
  "u_static_attrs partly_described
     = [(''hardware_version'', PStr ''IP2M-841''), (''machine_name'', PStr ''IP2M-841''),
        (''software_version'', PStr ''2.420.AC00.18.R''),
        (''software_build'', PStr ''2017-06-29'')]
   \<and> map_of (u_static_attrs partly_described) ''serial_number'' = None
   \<and> map_of (u_static_attrs (perform_all [Update, TurnOn, Update] partly_described))
        ''serial_number'' = None
   \<and> filter (\<lambda>c. c \<in> set static_attr_reads)
        (calls (perform_all [Update, TurnOn, Update] partly_described))
       = [GetAttr ''hardware_version'', GetAttr ''machine_name'', GetAttr ''serial_number'',
          GetAttr ''software_information'']"
proof -
  have h: "u_static_attrs partly_described \<noteq> []"
    by (simp add: partly_described_eq)
  from static_attrs_never_completed [OF h, of "[Update, TurnOn, Update]"] show ?thesis
    by (simp add: partly_described_eq static_attr_reads_def)
qed

end
